theory Spec2Isabelle
  imports Main "HOL-Library.Log_Nat" "HOL-Library.AList"
begin

text \<open>
  Composite orders on a futures exchange, as \<open>twap.py\<close>, \<open>oco.py\<close> and \<open>grid.py\<close> implement
  them: time-sliced orders, one-cancels-other pairs and price grids, each with its
  registry, its monitoring thread, its cancellation and its cleanup. The functions below
  follow the Python line by line; a mutated dict is a record passed in and returned, an
  exception handler is a branch, and what the exchange answers is a parameter.
\<close>

section \<open>Python floats\<close>

text \<open>
  Prices, quantities and clock readings are Python floats (IEEE 754 binary64). A finite
  float is modelled by the rational it denotes, and every arithmetic operation rounds
  its exact result to the nearest binary64 value, ties to even. Subnormal results are
  rounded on the fixed grid of the smallest exponent.

  The exponent has no upper bound here. Where a result would reach \<open>2^1024\<close>, Python
  returns \<open>inf\<close> (and raises OverflowError when it converts an integer), and \<open>nan\<close> from
  then on; in this model the result is a rational of that magnitude, and \<open>inf\<close> and \<open>nan\<close>
  are not values. The model is Python's arithmetic on the runs in which no result
  reaches that magnitude; the prices and quantities that the command line admits
  (\<open>validate_price\<close>, \<open>validate_quantity\<close>) and the readings of the clock are far below it.
\<close>

type_synonym pyfloat = rat

definition pow2 :: "int \<Rightarrow> rat" where
  "pow2 e = (if 0 \<le> e then 2 ^ nat e else 1 / 2 ^ nat (- e))"

definition round_half_even :: "rat \<Rightarrow> int" where
  "round_half_even x =
     (let f = \<lfloor>x\<rfloor>; d = x - of_int f
      in if d < 1 / 2 then f else if 1 / 2 < d then f + 1 else if even f then f else f + 1)"

text \<open>The binary exponent \<open>e\<close> of a non-zero rational: \<open>2^e \<le> |x| < 2^(e+1)\<close>.\<close>

definition exponent :: "rat \<Rightarrow> int" where
  "exponent x =
     (let (p, q) = quotient_of \<bar>x\<bar>; e0 = bitlen p - bitlen q
      in if pow2 e0 \<le> \<bar>x\<bar> then e0 else e0 - 1)"

definition round64 :: "rat \<Rightarrow> pyfloat" where
  "round64 x =
     (if x = 0 then 0
      else let u = pow2 (max (exponent x) (- 1022) - 52)
           in of_int (round_half_even (x / u)) * u)"

definition fadd :: "pyfloat \<Rightarrow> pyfloat \<Rightarrow> pyfloat" where
  "fadd a b = round64 (a + b)"

definition fsub :: "pyfloat \<Rightarrow> pyfloat \<Rightarrow> pyfloat" where
  "fsub a b = round64 (a - b)"

definition fmul :: "pyfloat \<Rightarrow> pyfloat \<Rightarrow> pyfloat" where
  "fmul a b = round64 (a * b)"

text \<open>An integer operand of a float operation is converted to the nearest float first.\<close>

definition float_of_int :: "int \<Rightarrow> pyfloat" where
  "float_of_int i = round64 (of_int i)"

text \<open>Python's \<open>/\<close>; every call site below has a divisor that is not zero.\<close>

definition fdiv :: "pyfloat \<Rightarrow> pyfloat \<Rightarrow> pyfloat" where
  "fdiv a b = round64 (a / b)"

text \<open>\<open>sum(...)\<close> over a generator: starts from the integer 0 and adds left to right.\<close>

definition fsum :: "pyfloat list \<Rightarrow> pyfloat" where
  "fsum xs = foldl fadd 0 xs"


section \<open>The exchange gateway\<close>

text \<open>
  \<open>BinanceClient\<close> never raises: \<open>_make_request\<close> catches every exception and returns the
  decoded JSON object of a 200 response and \<open>None\<close> otherwise. The managers only test a
  response for truth and read its fields \<open>orderId\<close> and \<open>status\<close>. A response is \<open>None\<close> here
  when the client returns \<open>None\<close> or an empty object, and otherwise the two fields of the
  object; every order object of the exchange carries its \<open>orderId\<close>, and a status that is
  absent or unknown is some other string.

  The exchange is the environment: a gateway is any function from the calls made so far
  and the present call to a response, so that the same call may be answered differently
  each time it is repeated. Every manager keeps the log of its calls, oldest first; what
  a manager writes to its logger is left out, and so is how long a sleep lasts.
\<close>

datatype gateway_call =
    PlaceOrder string string string pyfloat "pyfloat option" "pyfloat option" "string option"
      \<comment> \<open>symbol, side, order type, quantity, price, stop price, timeInForce\<close>
  | CancelOrder string int
  | GetOrderStatus string int

record order_info =
  orderId :: int
  ord_status :: string

type_synonym gateway = "gateway_call list \<Rightarrow> gateway_call \<Rightarrow> order_info option"

text \<open>One call of the client: the response, and the log of calls extended.\<close>

definition ask ::
  "gateway \<Rightarrow> gateway_call \<Rightarrow> gateway_call list \<Rightarrow> order_info option \<times> gateway_call list" where
  "ask gw c calls = (gw calls c, calls @ [c])"

text \<open>\<open>r and r.get('status') == s\<close> for a response \<open>r\<close>.\<close>

definition status_is :: "order_info option \<Rightarrow> string \<Rightarrow> bool" where
  "status_is r s = (case r of None \<Rightarrow> False | Some info \<Rightarrow> ord_status info = s)"


section \<open>TWAP orders (twap.py)\<close>

record twap_order =
  twap_id :: string
  tw_symbol :: string
  tw_side :: string
  total_quantity :: pyfloat
  duration_minutes :: int
  interval_seconds :: int
  chunk_quantity :: pyfloat
  remaining_quantity :: pyfloat
  tw_status :: string
  tw_created_time :: pyfloat
  tw_completed_time :: "pyfloat option"

text \<open>
  The order records are Python dicts, shared by reference between the registry
  \<open>active_twap_orders\<close> and the execution thread, which looks its record up once and keeps
  it. The store \<open>tw_heap\<close> holds the dict at each address; the registry is the dict of
  identifiers, in insertion order, each with the address of its record; \<open>tw_calls\<close> is the
  log of the gateway calls.
\<close>

record twap_manager =
  tw_heap :: "nat \<Rightarrow> twap_order"
  tw_next :: nat
  active_twap_orders :: "(string \<times> nat) list"
  tw_calls :: "gateway_call list"

definition no_twap_order :: twap_order where
  "no_twap_order =
     \<lparr>twap_id = [], tw_symbol = [], tw_side = [], total_quantity = 0, duration_minutes = 0,
      interval_seconds = 0, chunk_quantity = 0, remaining_quantity = 0, tw_status = [],
      tw_created_time = 0, tw_completed_time = None\<rparr>"

definition twap_init :: twap_manager where
  "twap_init =
     \<lparr>tw_heap = (\<lambda>_. no_twap_order), tw_next = 0, active_twap_orders = [], tw_calls = []\<rparr>"

text \<open>
  \<open>place_twap_order\<close>, up to the start of the thread. \<open>new_id\<close> is the identifier made from
  the clock, \<open>now\<close> the clock reading. \<open>//\<close> raises ZeroDivisionError on a zero interval;
  the handler returns \<open>None\<close> and nothing has been stored.
\<close>

definition place_twap_order ::
  "string \<Rightarrow> string \<Rightarrow> string \<Rightarrow> pyfloat \<Rightarrow> int \<Rightarrow> int \<Rightarrow> pyfloat \<Rightarrow> twap_manager
     \<Rightarrow> string option \<times> twap_manager" where
  "place_twap_order new_id smb sd qty dur ivl now m =
     (if ivl = 0 then (None, m)
      else
        let total_intervals = max 1 (dur * 60 div ivl);
            chunk = fdiv qty (float_of_int total_intervals);
            twap = \<lparr>twap_id = new_id, tw_symbol = smb, tw_side = sd, total_quantity = qty,
                     duration_minutes = dur, interval_seconds = ivl, chunk_quantity = chunk,
                     remaining_quantity = qty, tw_status = ''active'',
                     tw_created_time = now, tw_completed_time = None\<rparr>;
            r = tw_next m
        in (Some new_id,
            m\<lparr>tw_heap := (tw_heap m)(r := twap), tw_next := Suc r,
              active_twap_orders := AList.update new_id r (active_twap_orders m)\<rparr>))"

definition execute_twap_chunk :: "gateway \<Rightarrow> twap_order \<Rightarrow> twap_manager \<Rightarrow> bool \<times> twap_manager" where
  "execute_twap_chunk gw twap m =
     (case ask gw (PlaceOrder (tw_symbol twap) (tw_side twap) ''MARKET'' (chunk_quantity twap)
                     None None None) (tw_calls m) of
        (order_result, calls) \<Rightarrow> (order_result \<noteq> None, m\<lparr>tw_calls := calls\<rparr>))"

definition cancel_twap_order :: "string \<Rightarrow> pyfloat \<Rightarrow> twap_manager \<Rightarrow> bool \<times> twap_manager" where
  "cancel_twap_order tid now m =
     (case map_of (active_twap_orders m) tid of
        None \<Rightarrow> (False, m)
      | Some r \<Rightarrow>
          (True,
           m\<lparr>tw_heap := (tw_heap m)
                (r := (tw_heap m r)\<lparr>tw_status := ''cancelled'', tw_completed_time := Some now\<rparr>)\<rparr>))"

definition get_twap_order_status :: "string \<Rightarrow> twap_manager \<Rightarrow> twap_order option" where
  "get_twap_order_status tid m = map_option (tw_heap m) (map_of (active_twap_orders m) tid)"

text \<open>
  \<open>cleanup_completed_twap_orders\<close>: the first loop collects the identifiers of the records
  whose status is not \<open>'active'\<close> and whose age, counted from \<open>completed_time\<close> (from
  \<open>created_time\<close> when that key is absent), is above \<open>max_age_hours * 3600\<close>; the second
  loop deletes them.
\<close>

definition twap_expired :: "int \<Rightarrow> pyfloat \<Rightarrow> twap_order \<Rightarrow> bool" where
  "twap_expired max_age_hours current_time twap =
     (tw_status twap \<noteq> ''active'' \<and>
      of_int (max_age_hours * 3600)
        < fsub current_time
            (case tw_completed_time twap of None \<Rightarrow> tw_created_time twap | Some t \<Rightarrow> t))"

definition cleanup_completed_twap_orders :: "int \<Rightarrow> pyfloat \<Rightarrow> twap_manager \<Rightarrow> twap_manager" where
  "cleanup_completed_twap_orders max_age_hours current_time m =
     (let completed_orders =
            map fst (filter (\<lambda>(tid, r). twap_expired max_age_hours current_time (tw_heap m r))
                       (active_twap_orders m))
      in m\<lparr>active_twap_orders := fold AList.delete completed_orders (active_twap_orders m)\<rparr>)"

text \<open>
  The foreground requests that can reach the manager while the execution thread sleeps
  between two slices, each with the clock reading at which it is served.
\<close>

datatype twap_request = CancelTwap string pyfloat | CleanupTwap int pyfloat

fun serve_twap :: "twap_request \<Rightarrow> twap_manager \<Rightarrow> twap_manager" where
  "serve_twap (CancelTwap tid now) m = snd (cancel_twap_order tid now m)"
| "serve_twap (CleanupTwap max_age_hours now) m = cleanup_completed_twap_orders max_age_hours now m"

text \<open>
  \<open>time.sleep(secs)\<close> for an integer \<open>secs\<close>. The interpreter converts the length to a
  signed 64-bit count of nanoseconds and raises OverflowError when it does not fit; it
  raises ValueError when the length is negative; otherwise it calls the operating
  system, which may refuse the length as well (OSError, when the deadline lies beyond the
  range of its clock). \<open>granted\<close> is what the operating system does with a length that
  reaches it: \<open>None\<close> when it refuses, and otherwise the foreground requests that are
  served while the thread sleeps.
\<close>

datatype py_error = ValueError | OverflowError | OSError

definition time_sleep :: "int \<Rightarrow> twap_request list option \<Rightarrow> py_error + twap_request list" where
  "time_sleep secs granted =
     (if secs * 1000000000 < - (2 ^ 63) \<or> 2 ^ 63 - 1 < secs * 1000000000 then Inl OverflowError
      else if secs < 0 then Inl ValueError
      else case granted of None \<Rightarrow> Inl OSError | Some requests \<Rightarrow> Inr requests)"

text \<open>
  The \<open>for\<close> loop of \<open>execute_twap\<close> over \<open>range(total_intervals)\<close>; \<open>r\<close> is the address of
  the thread's \<open>twap_order\<close>, \<open>sleep i\<close> what the operating system does with the sleep of
  iteration \<open>i\<close>. Both \<open>break\<close>s and the end of the range leave the loop at the same place,
  with no exception; an exception raised by \<open>time.sleep\<close> leaves the loop with the slice
  placed and \<open>remaining_quantity\<close> decremented.
\<close>

fun twap_loop ::
  "gateway \<Rightarrow> (nat \<Rightarrow> twap_request list option) \<Rightarrow> nat \<Rightarrow> nat list \<Rightarrow> twap_manager
     \<Rightarrow> py_error option \<times> twap_manager" where
  "twap_loop gw sleep r [] m = (None, m)"
| "twap_loop gw sleep r (i # rest) m =
     (if tw_status (tw_heap m r) \<noteq> ''active'' then (None, m)
      else
        case execute_twap_chunk gw (tw_heap m r) m of
          (False, m1) \<Rightarrow>
            (None, m1\<lparr>tw_heap := (tw_heap m1)(r := (tw_heap m1 r)\<lparr>tw_status := ''failed''\<rparr>)\<rparr>)
        | (True, m1) \<Rightarrow>
            let twap = tw_heap m1 r;
                m2 = m1\<lparr>tw_heap := (tw_heap m1)
                       (r := twap\<lparr>remaining_quantity :=
                                    fsub (remaining_quantity twap) (chunk_quantity twap)\<rparr>)\<rparr>
            in (case time_sleep (interval_seconds (tw_heap m2 r)) (sleep i) of
                  Inl e \<Rightarrow> (Some e, m2)
                | Inr requests \<Rightarrow> twap_loop gw sleep r rest (fold serve_twap requests m2)))"

text \<open>
  The thread body. A missing identifier (KeyError), a zero interval (ZeroDivisionError)
  and an exception raised by \<open>time.sleep\<close> end in the handler, which only logs: the
  statements after the loop are not executed then. \<open>now\<close> is the clock reading after the
  loop.
\<close>

definition execute_twap ::
  "gateway \<Rightarrow> (nat \<Rightarrow> twap_request list option) \<Rightarrow> string \<Rightarrow> pyfloat \<Rightarrow> twap_manager
     \<Rightarrow> twap_manager" where
  "execute_twap gw sleep tid now m =
     (case map_of (active_twap_orders m) tid of
        None \<Rightarrow> m
      | Some r \<Rightarrow>
          if interval_seconds (tw_heap m r) = 0 then m
          else
            let total_intervals =
                  max 1 (duration_minutes (tw_heap m r) * 60 div interval_seconds (tw_heap m r))
            in (case twap_loop gw sleep r [0..<nat total_intervals] m of
                  (Some e, m1) \<Rightarrow> m1
                | (None, m1) \<Rightarrow>
                    let m2 = m1\<lparr>tw_heap := (tw_heap m1)
                               (r := (tw_heap m1 r)\<lparr>tw_status := ''completed'',
                                                     tw_completed_time := Some now\<rparr>)\<rparr>
                    in if map_of (active_twap_orders m2) tid \<noteq> None
                       then m2\<lparr>active_twap_orders := AList.delete tid (active_twap_orders m2)\<rparr>
                       else m2))"


section \<open>OCO orders (oco.py)\<close>

record oco_order =
  oco_id :: string
  oco_symbol :: string
  oco_side :: string
  oco_quantity :: pyfloat
  take_profit_order :: order_info
  stop_loss_order :: order_info
  take_profit_price :: pyfloat
  stop_loss_price :: pyfloat
  oco_status :: string
  oco_created_time :: pyfloat
  oco_completed_time :: "pyfloat option"

text \<open>
  The monitoring thread looks its record up anew in every cycle, and a cycle is taken
  as one step, so the registry holds the records themselves.
\<close>

record oco_manager =
  active_oco_orders :: "(string \<times> oco_order) list"
  oco_calls :: "gateway_call list"

definition place_take_profit_limit_order ::
  "gateway \<Rightarrow> string \<Rightarrow> string \<Rightarrow> pyfloat \<Rightarrow> pyfloat \<Rightarrow> gateway_call list
     \<Rightarrow> order_info option \<times> gateway_call list" where
  "place_take_profit_limit_order gw smb sd qty prc calls =
     ask gw (PlaceOrder smb sd ''LIMIT'' qty (Some prc) None (Some ''GTC'')) calls"

definition place_stop_loss_order ::
  "gateway \<Rightarrow> string \<Rightarrow> string \<Rightarrow> pyfloat \<Rightarrow> pyfloat \<Rightarrow> gateway_call list
     \<Rightarrow> order_info option \<times> gateway_call list" where
  "place_stop_loss_order gw smb sd qty stop_price calls =
     ask gw (PlaceOrder smb sd ''STOP_MARKET'' qty None (Some stop_price) None) calls"

text \<open>
  \<open>place_oco_order\<close>, up to the start of the monitoring thread; \<open>new_id\<close> is the identifier
  made from the clock. The result is the \<open>orderListId\<close> of the returned dict.
\<close>

definition place_oco_order ::
  "gateway \<Rightarrow> string \<Rightarrow> string \<Rightarrow> string \<Rightarrow> pyfloat \<Rightarrow> pyfloat \<Rightarrow> pyfloat \<Rightarrow> pyfloat
     \<Rightarrow> oco_manager \<Rightarrow> string option \<times> oco_manager" where
  "place_oco_order gw new_id smb sd qty tp_price sl_price now m =
     (case place_take_profit_limit_order gw smb sd qty tp_price (oco_calls m) of
        (None, calls1) \<Rightarrow> (None, m\<lparr>oco_calls := calls1\<rparr>)
      | (Some tp_order, calls1) \<Rightarrow>
          (case place_stop_loss_order gw smb sd qty sl_price calls1 of
             (None, calls2) \<Rightarrow>
               (None, m\<lparr>oco_calls := snd (ask gw (CancelOrder smb (orderId tp_order)) calls2)\<rparr>)
           | (Some sl_order, calls2) \<Rightarrow>
               (Some new_id,
                m\<lparr>active_oco_orders :=
                    AList.update new_id
                      \<lparr>oco_id = new_id, oco_symbol = smb, oco_side = sd, oco_quantity = qty,
                       take_profit_order = tp_order, stop_loss_order = sl_order,
                       take_profit_price = tp_price, stop_loss_price = sl_price,
                       oco_status = ''active'', oco_created_time = now,
                       oco_completed_time = None\<rparr>
                      (active_oco_orders m),
                  oco_calls := calls2\<rparr>)))"

text \<open>\<open>_cancel_remaining_order\<close>: the result of the cancel call is only logged.\<close>

definition cancel_remaining_order ::
  "gateway \<Rightarrow> oco_order \<Rightarrow> string \<Rightarrow> gateway_call list \<Rightarrow> gateway_call list" where
  "cancel_remaining_order gw oco order_type calls =
     (let order_id = (if order_type = ''take_profit'' then orderId (take_profit_order oco)
                      else orderId (stop_loss_order oco))
      in snd (ask gw (CancelOrder (oco_symbol oco) order_id) calls))"

text \<open>The record \<open>oid\<close> of the registry with a new status and completion time.\<close>

definition oco_finish :: "string \<Rightarrow> oco_order \<Rightarrow> string \<Rightarrow> pyfloat \<Rightarrow> oco_manager \<Rightarrow> oco_manager" where
  "oco_finish oid oco st now m =
     m\<lparr>active_oco_orders :=
         AList.update oid (oco\<lparr>oco_status := st, oco_completed_time := Some now\<rparr>)
           (active_oco_orders m)\<rparr>"

text \<open>
  One cycle of the \<open>while\<close> loop of \<open>monitor_oco\<close>, at clock reading \<open>now\<close>. The flag says
  whether the loop goes on (to the sleep and the next cycle) or has been left.
\<close>

definition oco_cycle :: "gateway \<Rightarrow> string \<Rightarrow> pyfloat \<Rightarrow> oco_manager \<Rightarrow> bool \<times> oco_manager" where
  "oco_cycle gw oid now m =
     (case map_of (active_oco_orders m) oid of
        None \<Rightarrow> (False, m)
      | Some oco \<Rightarrow>
          if oco_status oco \<noteq> ''active'' then (False, m)
          else
            case ask gw (GetOrderStatus (oco_symbol oco) (orderId (take_profit_order oco)))
                   (oco_calls m) of
              (tp_status, calls1) \<Rightarrow>
            case ask gw (GetOrderStatus (oco_symbol oco) (orderId (stop_loss_order oco)))
                   calls1 of
              (sl_status, calls2) \<Rightarrow>
            if status_is tp_status ''FILLED'' then
              (False,
               oco_finish oid oco ''completed_tp'' now
                 (m\<lparr>oco_calls := cancel_remaining_order gw oco ''stop_loss'' calls2\<rparr>))
            else if status_is sl_status ''FILLED'' then
              (False,
               oco_finish oid oco ''completed_sl'' now
                 (m\<lparr>oco_calls := cancel_remaining_order gw oco ''take_profit'' calls2\<rparr>))
            else if status_is tp_status ''CANCELED'' \<or> status_is sl_status ''CANCELED'' then
              (False,
               oco_finish oid oco ''cancelled'' now
                 (m\<lparr>oco_calls :=
                      (if status_is tp_status ''CANCELED''
                       then cancel_remaining_order gw oco ''stop_loss'' calls2
                       else cancel_remaining_order gw oco ''take_profit'' calls2)\<rparr>))
            else (True, m\<lparr>oco_calls := calls2\<rparr>))"

definition cancel_oco_order ::
  "gateway \<Rightarrow> string \<Rightarrow> pyfloat \<Rightarrow> oco_manager \<Rightarrow> bool \<times> oco_manager" where
  "cancel_oco_order gw oid now m =
     (case map_of (active_oco_orders m) oid of
        None \<Rightarrow> (False, m)
      | Some oco \<Rightarrow>
          if oco_status oco \<noteq> ''active'' then (False, m)
          else
            case ask gw (CancelOrder (oco_symbol oco) (orderId (take_profit_order oco)))
                   (oco_calls m) of
              (tp_cancelled, calls1) \<Rightarrow>
            case ask gw (CancelOrder (oco_symbol oco) (orderId (stop_loss_order oco))) calls1 of
              (sl_cancelled, calls2) \<Rightarrow>
            if tp_cancelled \<noteq> None \<or> sl_cancelled \<noteq> None
            then (True, oco_finish oid oco ''cancelled'' now (m\<lparr>oco_calls := calls2\<rparr>))
            else (False, m\<lparr>oco_calls := calls2\<rparr>))"

definition oco_expired :: "int \<Rightarrow> pyfloat \<Rightarrow> oco_order \<Rightarrow> bool" where
  "oco_expired max_age_hours current_time oco =
     (oco_status oco \<noteq> ''active'' \<and>
      of_int (max_age_hours * 3600)
        < fsub current_time
            (case oco_completed_time oco of None \<Rightarrow> oco_created_time oco | Some t \<Rightarrow> t))"

text \<open>\<open>cleanup_completed_orders\<close> of the OCO manager.\<close>

definition cleanup_completed_orders :: "int \<Rightarrow> pyfloat \<Rightarrow> oco_manager \<Rightarrow> oco_manager" where
  "cleanup_completed_orders max_age_hours current_time m =
     (let completed_orders =
            map fst (filter (\<lambda>(oid, oco). oco_expired max_age_hours current_time oco)
                       (active_oco_orders m))
      in m\<lparr>active_oco_orders := fold AList.delete completed_orders (active_oco_orders m)\<rparr>)"

datatype oco_request = CancelOco string pyfloat | CleanupOco int pyfloat

fun serve_oco :: "gateway \<Rightarrow> oco_request \<Rightarrow> oco_manager \<Rightarrow> oco_manager" where
  "serve_oco gw (CancelOco oid now) m = snd (cancel_oco_order gw oid now m)"
| "serve_oco gw (CleanupOco max_age_hours now) m = cleanup_completed_orders max_age_hours now m"

text \<open>
  The \<open>while\<close> loop of \<open>monitor_oco\<close> over a schedule: for each cycle its clock reading and
  the foreground requests served during the sleep that follows it. The loop has no
  bound of its own; the flag of the result says whether the thread is still in the loop
  when the schedule ends.
\<close>

fun monitor_oco ::
  "gateway \<Rightarrow> string \<Rightarrow> (pyfloat \<times> oco_request list) list \<Rightarrow> oco_manager \<Rightarrow> bool \<times> oco_manager" where
  "monitor_oco gw oid [] m = (True, m)"
| "monitor_oco gw oid ((now, requests) # cycles) m =
     (case oco_cycle gw oid now m of
        (False, m1) \<Rightarrow> (False, m1)
      | (True, m1) \<Rightarrow> monitor_oco gw oid cycles (fold (serve_oco gw) requests m1))"


text \<open>
  The resolution rules as the specification words them, in priority order: (a)
  take-profit FILLED: cancel stop-loss, status COMPLETED_TAKE_PROFIT; (b) stop-loss
  FILLED: cancel take-profit, status COMPLETED_STOP_LOSS; (c) either leg externally
  CANCELED: cancel the other, status CANCELLED. The result names the leg to cancel and
  the final status, or is \<open>None\<close> when no rule matches.
\<close>

definition oco_resolution_spec ::
  "order_info option \<Rightarrow> order_info option \<Rightarrow> ((oco_order \<Rightarrow> order_info) \<times> string) option" where
  "oco_resolution_spec tp sl =
     (if status_is tp ''FILLED'' then Some (stop_loss_order, ''completed_tp'')
      else if status_is sl ''FILLED'' then Some (take_profit_order, ''completed_sl'')
      else if status_is tp ''CANCELED'' then Some (stop_loss_order, ''cancelled'')
      else if status_is sl ''CANCELED'' then Some (take_profit_order, ''cancelled'')
      else None)"


section \<open>Grid orders (grid.py)\<close>

record grid_leg =
  order_id :: int
  side :: string
  price :: pyfloat
  quantity :: pyfloat
  status :: string

record grid_order =
  grid_id :: string
  g_symbol :: string
  grid_count :: int
  price_range_min :: pyfloat
  price_range_max :: pyfloat
  g_total_quantity :: pyfloat
  quantity_per_level :: pyfloat
  price_step :: pyfloat
  orders :: "grid_leg list"
  g_status :: string
  g_created_time :: pyfloat
  g_completed_time :: "pyfloat option"

record grid_manager =
  active_grid_orders :: "(string \<times> grid_order) list"
  grid_calls :: "gateway_call list"

text \<open>
  The body of the \<open>for i in range(grid_count)\<close> loop of \<open>place_grid_order\<close>, on the list
  \<open>grid_orders\<close> built so far and the log of gateway calls.
\<close>

definition place_level ::
  "gateway \<Rightarrow> string \<Rightarrow> pyfloat \<Rightarrow> pyfloat \<Rightarrow> pyfloat \<Rightarrow> pyfloat \<Rightarrow> nat
     \<Rightarrow> grid_leg list \<times> gateway_call list \<Rightarrow> grid_leg list \<times> gateway_call list" where
  "place_level gw smb pmin pmax step qty_per_level i acc =
     (case acc of (grid_orders, calls) \<Rightarrow>
        let prc = fadd pmin (fmul (float_of_int (int i)) step);
            mid_price = fdiv (fadd pmin pmax) (float_of_int 2);
            sd = (if prc < mid_price then ''BUY'' else ''SELL'')
        in (case ask gw (PlaceOrder smb sd ''LIMIT'' qty_per_level (Some prc) None (Some ''GTC''))
                   calls of
              (None, calls1) \<Rightarrow> (grid_orders, calls1)
            | (Some order_result, calls1) \<Rightarrow>
                (grid_orders @
                   [\<lparr>order_id = orderId order_result, side = sd, price = prc,
                     quantity = qty_per_level, status = ''active''\<rparr>],
                 calls1)))"

text \<open>
  \<open>place_grid_order\<close>, up to the start of the monitoring thread; \<open>new_id\<close> is the identifier
  made from the clock. The result is the \<open>grid_id\<close> of the returned dict.
\<close>

definition place_grid_order ::
  "gateway \<Rightarrow> string \<Rightarrow> string \<Rightarrow> int \<Rightarrow> pyfloat \<Rightarrow> pyfloat \<Rightarrow> pyfloat \<Rightarrow> pyfloat
     \<Rightarrow> grid_manager \<Rightarrow> string option \<times> grid_manager" where
  "place_grid_order gw new_id smb count pmin pmax qty now m =
     (if count < 2 then (None, m)
      else if pmax \<le> pmin then (None, m)
      else
        let step = fdiv (fsub pmax pmin) (float_of_int (count - 1));
            qty_per_level = fdiv qty (float_of_int count)
        in case fold (place_level gw smb pmin pmax step qty_per_level) [0..<nat count]
                  ([], grid_calls m) of
             (grid_orders, calls) \<Rightarrow>
               if grid_orders = [] then (None, m\<lparr>grid_calls := calls\<rparr>)
               else
                 (Some new_id,
                  m\<lparr>active_grid_orders :=
                      AList.update new_id
                        \<lparr>grid_id = new_id, g_symbol = smb, grid_count = count,
                         price_range_min = pmin, price_range_max = pmax,
                         g_total_quantity = qty, quantity_per_level = qty_per_level,
                         price_step = step, orders = grid_orders, g_status = ''active'',
                         g_created_time = now, g_completed_time = None\<rparr>
                        (active_grid_orders m),
                    grid_calls := calls\<rparr>))"

text \<open>\<open>_place_replacement_order\<close>, on the grid record and the log of gateway calls.\<close>

definition place_replacement_order ::
  "gateway \<Rightarrow> grid_leg \<Rightarrow> grid_order \<times> gateway_call list \<Rightarrow> grid_order \<times> gateway_call list" where
  "place_replacement_order gw filled_order acc =
     (case acc of (g, calls) \<Rightarrow>
        let new_side = (if side filled_order = ''BUY'' then ''SELL'' else ''BUY'');
            new_price = (if side filled_order = ''BUY''
                         then fadd (price filled_order) (price_step g)
                         else fsub (price filled_order) (price_step g))
        in if new_price < price_range_min g \<or> price_range_max g < new_price then (g, calls)
           else
             (case ask gw (PlaceOrder (g_symbol g) new_side ''LIMIT'' (quantity filled_order)
                             (Some new_price) None (Some ''GTC'')) calls of
                (None, calls1) \<Rightarrow> (g, calls1)
              | (Some order_result, calls1) \<Rightarrow>
                  (g\<lparr>orders := orders g @
                       [\<lparr>order_id = orderId order_result, side = new_side, price = new_price,
                         quantity = quantity filled_order, status = ''active''\<rparr>]\<rparr>,
                   calls1)))"

text \<open>
  The body of the \<open>for order in grid_order['orders']\<close> loop of \<open>monitor_grid\<close> for the
  order at position \<open>i\<close> of the list.
\<close>

definition check_order ::
  "gateway \<Rightarrow> nat \<Rightarrow> grid_order \<times> gateway_call list \<Rightarrow> grid_order \<times> gateway_call list" where
  "check_order gw i acc =
     (case acc of (g, calls) \<Rightarrow>
        if status (orders g ! i) = ''active'' then
          case ask gw (GetOrderStatus (g_symbol g) (order_id (orders g ! i))) calls of
            (order_status, calls1) \<Rightarrow>
              if status_is order_status ''FILLED'' then
                place_replacement_order gw ((orders g ! i)\<lparr>status := ''filled''\<rparr>)
                  (g\<lparr>orders := (orders g)[i := (orders g ! i)\<lparr>status := ''filled''\<rparr>]\<rparr>, calls1)
              else (g, calls1)
        else (g, calls))"

text \<open>
  The \<open>for\<close> loop itself. Python's list iterator reads the length anew at every step, so
  the legs appended by \<open>_place_replacement_order\<close> are visited in the same pass, and a
  gateway that reports every new leg as filled keeps the loop running for ever: the
  result is \<open>None\<close> then.
\<close>

partial_function (option) check_orders ::
  "gateway \<Rightarrow> nat \<Rightarrow> grid_order \<times> gateway_call list \<Rightarrow> (grid_order \<times> gateway_call list) option" where
  "check_orders gw i acc =
     (if i < length (orders (fst acc)) then check_orders gw (Suc i) (check_order gw i acc)
      else Some acc)"

text \<open>
  One cycle of the \<open>while\<close> loop of \<open>monitor_grid\<close>; the flag says whether the loop goes on
  or has been left.
\<close>

definition grid_cycle :: "gateway \<Rightarrow> string \<Rightarrow> grid_manager \<Rightarrow> (bool \<times> grid_manager) option" where
  "grid_cycle gw gid m =
     (case map_of (active_grid_orders m) gid of
        None \<Rightarrow> Some (False, m)
      | Some g \<Rightarrow>
          if g_status g \<noteq> ''active'' then Some (False, m)
          else
            (case check_orders gw 0 (g, grid_calls m) of
               None \<Rightarrow> None
             | Some (g1, calls1) \<Rightarrow>
                 Some (True,
                       m\<lparr>active_grid_orders := AList.update gid g1 (active_grid_orders m),
                         grid_calls := calls1\<rparr>)))"

text \<open>The loop of \<open>cancel_grid_order\<close> over the legs.\<close>

fun cancel_legs ::
  "gateway \<Rightarrow> string \<Rightarrow> grid_leg list \<Rightarrow> gateway_call list \<Rightarrow> grid_leg list \<times> gateway_call list" where
  "cancel_legs gw smb [] calls = ([], calls)"
| "cancel_legs gw smb (order # rest) calls =
     (if status order = ''active'' then
        case ask gw (CancelOrder smb (order_id order)) calls of
          (result, calls1) \<Rightarrow>
            case cancel_legs gw smb rest calls1 of
              (rest1, calls2) \<Rightarrow>
                ((if result \<noteq> None then order\<lparr>status := ''cancelled''\<rparr> else order) # rest1,
                 calls2)
      else
        case cancel_legs gw smb rest calls of
          (rest1, calls2) \<Rightarrow> (order # rest1, calls2))"

definition cancel_grid_order ::
  "gateway \<Rightarrow> string \<Rightarrow> pyfloat \<Rightarrow> grid_manager \<Rightarrow> bool \<times> grid_manager" where
  "cancel_grid_order gw gid now m =
     (case map_of (active_grid_orders m) gid of
        None \<Rightarrow> (False, m)
      | Some g \<Rightarrow>
          case cancel_legs gw (g_symbol g) (orders g) (grid_calls m) of
            (legs, calls) \<Rightarrow>
              (True,
               m\<lparr>active_grid_orders :=
                   AList.update gid
                     (g\<lparr>orders := legs, g_status := ''cancelled'', g_completed_time := Some now\<rparr>)
                     (active_grid_orders m),
                 grid_calls := calls\<rparr>))"

record grid_performance =
  total_filled_orders :: nat
  total_volume :: pyfloat
  buy_volume :: pyfloat
  sell_volume :: pyfloat
  avg_buy_price :: pyfloat
  avg_sell_price :: pyfloat
  spread :: pyfloat

definition get_grid_performance :: "string \<Rightarrow> grid_manager \<Rightarrow> grid_performance option" where
  "get_grid_performance gid m =
     (case map_of (active_grid_orders m) gid of
        None \<Rightarrow> None
      | Some g \<Rightarrow>
          let filled = filter (\<lambda>order. status order = ''filled'') (orders g);
              buys = filter (\<lambda>order. status order = ''filled'' \<and> side order = ''BUY'') (orders g);
              sells = filter (\<lambda>order. status order = ''filled'' \<and> side order = ''SELL'') (orders g);
              buy_vol = fsum (map quantity buys);
              sell_vol = fsum (map quantity sells);
              avg_buy = fdiv (fsum (map (\<lambda>order. fmul (price order) (quantity order)) buys))
                          (max buy_vol 1);
              avg_sell = fdiv (fsum (map (\<lambda>order. fmul (price order) (quantity order)) sells))
                           (max sell_vol 1)
          in Some \<lparr>total_filled_orders = length filled,
                   total_volume = fsum (map quantity filled),
                   buy_volume = buy_vol, sell_volume = sell_vol,
                   avg_buy_price = avg_buy, avg_sell_price = avg_sell,
                   spread = (if 0 < avg_sell \<and> 0 < avg_buy then fsub avg_sell avg_buy else 0)\<rparr>)"

definition grid_expired :: "int \<Rightarrow> pyfloat \<Rightarrow> grid_order \<Rightarrow> bool" where
  "grid_expired max_age_hours current_time g =
     (g_status g \<noteq> ''active'' \<and>
      of_int (max_age_hours * 3600)
        < fsub current_time
            (case g_completed_time g of None \<Rightarrow> g_created_time g | Some t \<Rightarrow> t))"

definition cleanup_completed_grid_orders :: "int \<Rightarrow> pyfloat \<Rightarrow> grid_manager \<Rightarrow> grid_manager" where
  "cleanup_completed_grid_orders max_age_hours current_time m =
     (let completed_orders =
            map fst (filter (\<lambda>(gid, g). grid_expired max_age_hours current_time g)
                       (active_grid_orders m))
      in m\<lparr>active_grid_orders := fold AList.delete completed_orders (active_grid_orders m)\<rparr>)"

datatype grid_request = CancelGrid string pyfloat | CleanupGrid int pyfloat

fun serve_grid :: "gateway \<Rightarrow> grid_request \<Rightarrow> grid_manager \<Rightarrow> grid_manager" where
  "serve_grid gw (CancelGrid gid now) m = snd (cancel_grid_order gw gid now m)"
| "serve_grid gw (CleanupGrid max_age_hours now) m =
     cleanup_completed_grid_orders max_age_hours now m"

text \<open>
  The \<open>while\<close> loop of \<open>monitor_grid\<close> over a schedule: for each cycle the foreground
  requests served during the sleep that follows it. The flag of the result says whether
  the thread is still in the loop when the schedule ends.
\<close>

fun monitor_grid ::
  "gateway \<Rightarrow> string \<Rightarrow> grid_request list list \<Rightarrow> grid_manager \<Rightarrow> (bool \<times> grid_manager) option" where
  "monitor_grid gw gid [] m = Some (True, m)"
| "monitor_grid gw gid (requests # cycles) m =
     (case grid_cycle gw gid m of
        None \<Rightarrow> None
      | Some (False, m1) \<Rightarrow> Some (False, m1)
      | Some (True, m1) \<Rightarrow> monitor_grid gw gid cycles (fold (serve_grid gw) requests m1))"


text \<open>
  The levels as the specification words them: \<open>price_step = (price_max - price_min) /
  (level_count - 1)\<close>; level \<open>i\<close> is priced \<open>price_min + i * price_step\<close>, BUY below the
  midpoint \<open>(price_min + price_max) / 2\<close> and SELL at or above it, each with the quantity
  \<open>total_quantity / level_count\<close>; all of it in float arithmetic.
\<close>

definition level_price_spec :: "pyfloat \<Rightarrow> pyfloat \<Rightarrow> int \<Rightarrow> nat \<Rightarrow> pyfloat" where
  "level_price_spec pmin pmax count i =
     fadd pmin (fmul (float_of_int (int i)) (fdiv (fsub pmax pmin) (float_of_int (count - 1))))"

definition level_side_spec :: "pyfloat \<Rightarrow> pyfloat \<Rightarrow> pyfloat \<Rightarrow> string" where
  "level_side_spec pmin pmax prc =
     (if prc < fdiv (fadd pmin pmax) (float_of_int 2) then ''BUY'' else ''SELL'')"

definition level_call_spec ::
  "string \<Rightarrow> pyfloat \<Rightarrow> pyfloat \<Rightarrow> int \<Rightarrow> pyfloat \<Rightarrow> nat \<Rightarrow> gateway_call" where
  "level_call_spec smb pmin pmax count qty i =
     PlaceOrder smb (level_side_spec pmin pmax (level_price_spec pmin pmax count i)) ''LIMIT''
       (fdiv qty (float_of_int count)) (Some (level_price_spec pmin pmax count i)) None
       (Some ''GTC'')"

definition level_leg_spec ::
  "pyfloat \<Rightarrow> pyfloat \<Rightarrow> int \<Rightarrow> pyfloat \<Rightarrow> nat \<Rightarrow> order_info \<Rightarrow> grid_leg" where
  "level_leg_spec pmin pmax count qty i order_result =
     \<lparr>order_id = orderId order_result,
      side = level_side_spec pmin pmax (level_price_spec pmin pmax count i),
      price = level_price_spec pmin pmax count i,
      quantity = fdiv qty (float_of_int count), status = ''active''\<rparr>"

text \<open>
  What a pass of the monitor may do to a grid record: the range and the step stay, the
  legs present keep their prices, and every leg added has its price within the range.
\<close>

definition grid_extends :: "grid_order \<Rightarrow> grid_order \<Rightarrow> bool" where
  "grid_extends g g' =
     (price_range_min g' = price_range_min g \<and> price_range_max g' = price_range_max g \<and>
      price_step g' = price_step g \<and>
      take (length (orders g)) (map price (orders g')) = map price (orders g) \<and>
      list_all (\<lambda>prc. price_range_min g \<le> prc \<and> prc \<le> price_range_max g)
        (drop (length (orders g)) (map price (orders g'))))"


section \<open>Examples\<close>

text \<open>A gateway that accepts the first \<open>k\<close> calls made to it and fails every later one.\<close>

definition gw_accept_first :: "nat \<Rightarrow> gateway" where
  "gw_accept_first k calls c =
     (if length calls < k then Some \<lparr>orderId = int (length calls), ord_status = ''NEW''\<rparr>
      else None)"

text \<open>Gateways that accept every call, fail every call, report every order as filled.\<close>

definition gw_accept :: gateway where
  "gw_accept calls c = Some \<lparr>orderId = int (length calls), ord_status = ''NEW''\<rparr>"

definition gw_reject :: gateway where
  "gw_reject calls c = None"

definition gw_all_filled :: gateway where
  "gw_all_filled calls c = Some \<lparr>orderId = int (length calls), ord_status = ''FILLED''\<rparr>"

text \<open>A gateway that accepts every call and reports order \<open>k\<close> as filled, every other as new.\<close>

definition gw_filled :: "int \<Rightarrow> gateway" where
  "gw_filled k calls c =
     Some \<lparr>orderId = int (length calls),
           ord_status = (case c of GetOrderStatus smb oid \<Rightarrow> if oid = k then ''FILLED'' else ''NEW''
                         | _ \<Rightarrow> ''NEW'')\<rparr>"

text \<open>Every sleep is granted, and no foreground request arrives during any of them.\<close>

definition no_requests :: "nat \<Rightarrow> twap_request list option" where
  "no_requests i = Some []"

text \<open>
  The order of the specification's example: 100 units over 5 minutes, a slice every 60
  seconds (5 slices of 20), placed at clock reading 1000 into the empty manager.
\<close>

definition twap_example :: twap_manager where
  "twap_example =
     snd (place_twap_order ''TWAP_1000000'' ''BTCUSDT'' ''BUY'' 100 5 60 1000 twap_init)"

text \<open>Its execution when the gateway accepts three market orders and fails the fourth.\<close>

definition twap_example_fourth_fails :: twap_manager where
  "twap_example_fourth_fails =
     execute_twap (gw_accept_first 3) no_requests ''TWAP_1000000'' 1180 twap_example"

text \<open>
  Its execution when every market order is accepted and a cancel request is served, at
  clock reading 1100, during the sleep that follows the second slice.
\<close>

definition cancel_after_second :: "nat \<Rightarrow> twap_request list option" where
  "cancel_after_second i = Some (if i = 1 then [CancelTwap ''TWAP_1000000'' 1100] else [])"

definition twap_example_cancelled :: twap_manager where
  "twap_example_cancelled =
     execute_twap (gw_accept_first 5) cancel_after_second ''TWAP_1000000'' 1120 twap_example"


text \<open>
  An OCO pair placed into the empty manager (take-profit at 110, stop-loss at 90), and
  the manager after a cancel request that the gateway accepts.
\<close>

definition oco_init :: oco_manager where
  "oco_init = \<lparr>active_oco_orders = [], oco_calls = []\<rparr>"

definition oco_example :: oco_manager where
  "oco_example =
     snd (place_oco_order gw_all_filled ''OCO_1000000'' ''BTCUSDT'' ''SELL'' 1 110 90 1000 oco_init)"

definition oco_example_order :: oco_order where
  "oco_example_order =
     \<lparr>oco_id = ''OCO_1000000'', oco_symbol = ''BTCUSDT'', oco_side = ''SELL'', oco_quantity = 1,
      take_profit_order = \<lparr>orderId = 0, ord_status = ''FILLED''\<rparr>,
      stop_loss_order = \<lparr>orderId = 1, ord_status = ''FILLED''\<rparr>,
      take_profit_price = 110, stop_loss_price = 90, oco_status = ''active'',
      oco_created_time = 1000, oco_completed_time = None\<rparr>"

definition oco_example_cancelled :: oco_manager where
  "oco_example_cancelled = snd (cancel_oco_order (gw_accept_first 3) ''OCO_1000000'' 1010 oco_example)"

text \<open>
  A grid of two levels between 100 and 200 with total quantity 1, placed into the empty
  manager: a BUY leg at 100 and a SELL leg at 200, half a unit each.
\<close>

definition grid_init :: grid_manager where
  "grid_init = \<lparr>active_grid_orders = [], grid_calls = []\<rparr>"

definition grid_example :: grid_manager where
  "grid_example =
     snd (place_grid_order (gw_filled 0) ''GRID_1000000'' ''BTCUSDT'' 2 100 200 1 1000 grid_init)"

definition grid_example_order :: grid_order where
  "grid_example_order =
     \<lparr>grid_id = ''GRID_1000000'', g_symbol = ''BTCUSDT'', grid_count = 2,
      price_range_min = 100, price_range_max = 200, g_total_quantity = 1,
      quantity_per_level = 1 / 2, price_step = 100,
      orders = [\<lparr>order_id = 0, side = ''BUY'', price = 100, quantity = 1 / 2, status = ''active''\<rparr>,
                \<lparr>order_id = 1, side = ''SELL'', price = 200, quantity = 1 / 2, status = ''active''\<rparr>],
      g_status = ''active'', g_created_time = 1000, g_completed_time = None\<rparr>"

definition grid_example_calls :: "gateway_call list" where
  "grid_example_calls =
     [PlaceOrder ''BTCUSDT'' ''BUY'' ''LIMIT'' (1 / 2) (Some 100) None (Some ''GTC''),
      PlaceOrder ''BTCUSDT'' ''SELL'' ''LIMIT'' (1 / 2) (Some 200) None (Some ''GTC'')]"


text \<open>The example grid after one monitor cycle in which the gateway reports the BUY leg filled.\<close>

definition grid_example_filled :: grid_manager where
  "grid_example_filled =
     (case grid_cycle (gw_filled 0) ''GRID_1000000'' grid_example of
        None \<Rightarrow> grid_example
      | Some (running, m) \<Rightarrow> m)"

text \<open>
  The example grid after a cancel request, at clock reading 1010, during which the
  gateway fails every call: the grid is cancelled and both legs are still active.
\<close>

definition grid_example_uncancelled :: grid_manager where
  "grid_example_uncancelled = snd (cancel_grid_order gw_reject ''GRID_1000000'' 1010 grid_example)"

text \<open>
  A grid of 8 levels between 1 and 30 with total quantity 8, every placement accepted.
\<close>

definition grid_rounding_example :: grid_manager where
  "grid_rounding_example =
     snd (place_grid_order gw_accept ''GRID_1000000'' ''BTCUSDT'' 8 1 30 8 1000 grid_init)"

text \<open>
  Its record in the registry, and the round trip of its top level: the gateway reports
  the top leg (order 7) as filled, and then the BUY leg that replaced it (order 9).
\<close>

definition grid_rounding_order :: grid_order where
  "grid_rounding_order = snd (hd (active_grid_orders grid_rounding_example))"

definition grid_rounding_round_trip :: "grid_order \<times> gateway_call list" where
  "grid_rounding_round_trip =
     check_order (gw_filled 9) 8
       (check_order (gw_filled 7) 7 (grid_rounding_order, grid_calls grid_rounding_example))"

text \<open>
  An order of 100 units over 5 minutes with an interval of -60 seconds, placed at clock
  reading 1000 into the empty manager, and its execution with every market order
  accepted.
\<close>

definition twap_negative_interval :: twap_manager where
  "twap_negative_interval =
     execute_twap gw_accept no_requests ''TWAP_2000000'' 1010
       (snd (place_twap_order ''TWAP_2000000'' ''BTCUSDT'' ''BUY'' 100 5 (- 60) 1000 twap_init))"



section \<open>Float facts used by the examples\<close>

lemma fdiv_100_5: "fdiv 100 (float_of_int 5) = 20"
  by code_simp

lemma fsub_100_20: "fsub 100 20 = 80"
  by code_simp

lemma fsub_80_20: "fsub 80 20 = 60"
  by code_simp

lemma fsub_60_20: "fsub 60 20 = 40"
  by code_simp

lemmas twap_example_floats = fdiv_100_5 fsub_100_20 fsub_80_20 fsub_60_20


section \<open>TWAP: slice failure and cancellation\<close>

lemma twap_example_eq:
  "twap_example =
     \<lparr>tw_heap = (\<lambda>_. no_twap_order)
        (0 := \<lparr>twap_id = ''TWAP_1000000'', tw_symbol = ''BTCUSDT'', tw_side = ''BUY'',
               total_quantity = 100, duration_minutes = 5, interval_seconds = 60,
               chunk_quantity = 20, remaining_quantity = 100, tw_status = ''active'',
               tw_created_time = 1000, tw_completed_time = None\<rparr>),
      tw_next = 1, active_twap_orders = [(''TWAP_1000000'', 0)], tw_calls = []\<rparr>"
  by (simp add: twap_example_def place_twap_order_def twap_init_def Let_def fdiv_100_5)

text \<open>
  A sleep of 0 to 9223372036 seconds that the operating system grants returns; a
  negative or a longer one raises whatever the operating system would do.
\<close>

lemma time_sleep_granted:
  assumes "0 \<le> secs" and "secs \<le> 9223372036"
  shows "time_sleep secs (Some requests) = Inr requests"
  using assms by (simp add: time_sleep_def)

lemma time_sleep_raises:
  assumes "secs < 0 \<or> 9223372036 < secs"
  shows "\<exists>e. time_sleep secs granted = Inl e"
  using assms by (auto simp add: time_sleep_def)

text \<open>No request changes the interval of a record.\<close>

lemma serve_twap_interval:
  "interval_seconds (tw_heap (serve_twap request m) r) = interval_seconds (tw_heap m r)"
  by (cases request)
    (simp_all add: cancel_twap_order_def cleanup_completed_twap_orders_def Let_def
      split: option.split)

lemma fold_serve_twap_interval:
  "interval_seconds (tw_heap (fold serve_twap requests m) r) = interval_seconds (tw_heap m r)"
  by (induction requests arbitrary: m) (simp_all add: serve_twap_interval)

text \<open>
  When the interval is one that \<open>time.sleep\<close> accepts and the operating system grants
  every sleep, the loop is left without an exception.
\<close>

lemma twap_loop_returns:
  assumes "\<And>i. sleep i \<noteq> None"
    and "0 \<le> interval_seconds (tw_heap m r)" and "interval_seconds (tw_heap m r) \<le> 9223372036"
  shows "fst (twap_loop gw sleep r slices m) = None"
  using assms(2,3)
proof (induction slices arbitrary: m)
  case Nil
  show ?case by simp
next
  case (Cons i slices)
  show ?case
  proof (cases "tw_status (tw_heap m r) \<noteq> ''active''")
    case True
    then show ?thesis by simp
  next
    case False
    obtain requests where granted: "sleep i = Some requests"
      using assms(1) [of i] by (cases "sleep i") simp_all
    obtain ok m1 where chunk: "execute_twap_chunk gw (tw_heap m r) m = (ok, m1)"
      by (cases "execute_twap_chunk gw (tw_heap m r) m")
    then have heap: "tw_heap m1 = tw_heap m"
      by (auto simp add: execute_twap_chunk_def ask_def)
    show ?thesis
    proof (cases ok)
      case True
      let ?m2 = "m1\<lparr>tw_heap := (tw_heap m1)
                   (r := (tw_heap m1 r)\<lparr>remaining_quantity :=
                      fsub (remaining_quantity (tw_heap m1 r)) (chunk_quantity (tw_heap m1 r))\<rparr>)\<rparr>"
      have ivl: "interval_seconds (tw_heap ?m2 r) = interval_seconds (tw_heap m r)"
        by (simp add: heap)
      have "fst (twap_loop gw sleep r slices (fold serve_twap requests ?m2)) = None"
        using Cons.prems by (intro Cons.IH) (simp_all add: fold_serve_twap_interval heap)
      moreover have "time_sleep (interval_seconds (tw_heap ?m2 r)) (sleep i) = Inr requests"
        unfolding ivl granted using Cons.prems by (rule time_sleep_granted)
      ultimately show ?thesis
        using False chunk True by (simp add: Let_def)
    next
      case no: False
      then show ?thesis
        using False chunk by simp
    qed
  qed
qed

text \<open>
  Whatever the gateway answers and whatever is requested meanwhile, a thread that no
  sleep interrupts leaves the record of a registered order with status \<open>'completed'\<close>:
  the assignment after the loop is reached from both \<open>break\<close>s as well.
\<close>

lemma execute_twap_status:
  assumes "map_of (active_twap_orders m) tid = Some r"
    and "0 < interval_seconds (tw_heap m r)" and "interval_seconds (tw_heap m r) \<le> 9223372036"
    and "\<And>i. sleep i \<noteq> None"
  shows "tw_status (tw_heap (execute_twap gw sleep tid now m) r) = ''completed''"
proof -
  let ?n = "nat (max 1 (duration_minutes (tw_heap m r) * 60 div interval_seconds (tw_heap m r)))"
  have "fst (twap_loop gw sleep r [0..<?n] m) = None"
    using assms(4) assms(2,3) by (intro twap_loop_returns) simp_all
  then obtain m1 where "twap_loop gw sleep r [0..<?n] m = (None, m1)"
    by (cases "twap_loop gw sleep r [0..<?n] m") simp
  then show ?thesis
    using assms(1,2) by (simp add: execute_twap_def Let_def)
qed

text \<open>... and with no registry entry under its identifier.\<close>

lemma execute_twap_unregisters:
  assumes "map_of (active_twap_orders m) tid = Some r"
    and "0 < interval_seconds (tw_heap m r)" and "interval_seconds (tw_heap m r) \<le> 9223372036"
    and "\<And>i. sleep i \<noteq> None"
  shows "map_of (active_twap_orders (execute_twap gw sleep tid now m)) tid = None"
proof -
  let ?n = "nat (max 1 (duration_minutes (tw_heap m r) * 60 div interval_seconds (tw_heap m r)))"
  have "fst (twap_loop gw sleep r [0..<?n] m) = None"
    using assms(4) assms(2,3) by (intro twap_loop_returns) simp_all
  then obtain m1 where "twap_loop gw sleep r [0..<?n] m = (None, m1)"
    by (cases "twap_loop gw sleep r [0..<?n] m") simp
  then show ?thesis
    using assms(1,2) by (simp add: execute_twap_def Let_def delete_conv')
qed

text \<open>
  A failed slice ends the loop at once: one gateway call more, status \<open>'failed'\<close>,
  \<open>remaining_quantity\<close> as before.
\<close>

lemma twap_loop_failed_slice:
  assumes "tw_status (tw_heap m r) = ''active''"
    and "gw (tw_calls m)
           (PlaceOrder (tw_symbol (tw_heap m r)) (tw_side (tw_heap m r)) ''MARKET''
              (chunk_quantity (tw_heap m r)) None None None) = None"
  shows "twap_loop gw sleep r (i # rest) m =
           (None,
            m\<lparr>tw_calls := tw_calls m @
                  [PlaceOrder (tw_symbol (tw_heap m r)) (tw_side (tw_heap m r)) ''MARKET''
                     (chunk_quantity (tw_heap m r)) None None None],
              tw_heap := (tw_heap m)(r := (tw_heap m r)\<lparr>tw_status := ''failed''\<rparr>)\<rparr>)"
  using assms by (simp add: execute_twap_chunk_def ask_def)

text \<open>A record that is not active at the top of a cycle ends the loop with no gateway call.\<close>

lemma twap_loop_not_active:
  assumes "tw_status (tw_heap m r) \<noteq> ''active''"
  shows "twap_loop gw sleep r slices m = (None, m)"
  using assms by (cases slices) simp_all

text \<open>
  A negative interval: the order has one slice; when the gateway accepts it, the sleep
  that follows raises, and the thread ends in its handler with the record still
  registered and still \<open>'active'\<close>.
\<close>

lemma twap_negative_interval_floats:
  "fdiv 100 (float_of_int 1) = 100" "fsub 100 100 = 0"
  by code_simp+

lemma twap_negative_interval_stays_active:
  "tw_calls twap_negative_interval =
     [PlaceOrder ''BTCUSDT'' ''BUY'' ''MARKET'' 100 None None None] \<and>
   map_option tw_status (get_twap_order_status ''TWAP_2000000'' twap_negative_interval) =
     Some ''active'' \<and>
   map_option remaining_quantity (get_twap_order_status ''TWAP_2000000'' twap_negative_interval) =
     Some 0 \<and>
   map_option tw_completed_time (get_twap_order_status ''TWAP_2000000'' twap_negative_interval) =
     Some None"
  by (simp add: twap_negative_interval_def place_twap_order_def twap_init_def execute_twap_def
      execute_twap_chunk_def ask_def gw_accept_def no_requests_def time_sleep_def
      get_twap_order_status_def twap_negative_interval_floats Let_def)

text \<open>
  C1. When a slice fails, no later slice is attempted, \<open>remaining_quantity\<close> is not
  decremented for the failed slice, and the final status is FAILED. On the example order
  with the fourth slice failing, the code makes four gateway calls and leaves
  \<open>remaining_quantity\<close> at 40, but the final status is \<open>'completed'\<close>, not \<open>'failed'\<close>.
\<close>

theorem twap_fourth_slice_failure_ends_completed:
  "tw_calls twap_example_fourth_fails =
     replicate 4 (PlaceOrder ''BTCUSDT'' ''BUY'' ''MARKET'' 20 None None None) \<and>
   remaining_quantity (tw_heap twap_example_fourth_fails 0) = 40 \<and>
   tw_status (tw_heap twap_example_fourth_fails 0) = ''completed'' \<and>
   tw_status (tw_heap twap_example_fourth_fails 0) \<noteq> ''failed''"
  by (simp add: twap_example_fourth_fails_def twap_example_eq execute_twap_def
      execute_twap_chunk_def ask_def gw_accept_first_def no_requests_def time_sleep_def
      twap_example_floats Let_def upt_rec numeral_eq_Suc)

text \<open>
  C3. A cancel request sets the status to CANCELLED, that status persists, and the
  thread places no further slice once it has seen it. On the example order cancelled
  during the sleep after the second slice, the thread places no third slice, but then
  overwrites the status with \<open>'completed'\<close> and the completion time with its own, and
  drops the record from the registry.
\<close>

theorem twap_cancel_overwritten_by_thread:
  "tw_calls twap_example_cancelled =
     replicate 2 (PlaceOrder ''BTCUSDT'' ''BUY'' ''MARKET'' 20 None None None) \<and>
   tw_status (tw_heap twap_example_cancelled 0) = ''completed'' \<and>
   tw_completed_time (tw_heap twap_example_cancelled 0) = Some 1120 \<and>
   get_twap_order_status ''TWAP_1000000'' twap_example_cancelled = None"
  by (simp add: twap_example_cancelled_def twap_example_eq execute_twap_def
      execute_twap_chunk_def ask_def gw_accept_first_def cancel_after_second_def time_sleep_def
      cancel_twap_order_def get_twap_order_status_def twap_example_floats
      Let_def upt_rec numeral_eq_Suc)

section \<open>OCO: resolution, creation, cancellation\<close>

lemma oco_example_eq:
  "oco_example =
     \<lparr>active_oco_orders = [(''OCO_1000000'', oco_example_order)],
      oco_calls = [PlaceOrder ''BTCUSDT'' ''SELL'' ''LIMIT'' 1 (Some 110) None (Some ''GTC''),
                   PlaceOrder ''BTCUSDT'' ''SELL'' ''STOP_MARKET'' 1 None (Some 90) None]\<rparr>"
  by (simp add: oco_example_def oco_example_order_def place_oco_order_def oco_init_def
      place_take_profit_limit_order_def place_stop_loss_order_def ask_def gw_all_filled_def)

text \<open>
  C4. In every poll cycle on an active OCO order the monitor applies the resolution rules
  in priority order: it cancels the other leg with exactly one gateway cancel, sets the
  final status and leaves the loop, whatever the rest of the schedule holds; when no rule
  matches it sleeps and polls again. With both legs filled the take-profit rule wins.
\<close>

theorem oco_cycle_resolution:
  assumes "map_of (active_oco_orders m) oid = Some oco" and "oco_status oco = ''active''"
  shows "let get_tp = GetOrderStatus (oco_symbol oco) (orderId (take_profit_order oco));
             get_sl = GetOrderStatus (oco_symbol oco) (orderId (stop_loss_order oco));
             tp_status = gw (oco_calls m) get_tp;
             sl_status = gw (oco_calls m @ [get_tp]) get_sl
         in monitor_oco gw oid ((now, requests) # cycles) m =
            (case oco_resolution_spec tp_status sl_status of
               Some (other_leg, final_status) \<Rightarrow>
                 (False,
                  m\<lparr>oco_calls := oco_calls m @
                       [get_tp, get_sl, CancelOrder (oco_symbol oco) (orderId (other_leg oco))],
                    active_oco_orders :=
                      AList.update oid
                        (oco\<lparr>oco_status := final_status, oco_completed_time := Some now\<rparr>)
                        (active_oco_orders m)\<rparr>)
             | None \<Rightarrow>
                 monitor_oco gw oid cycles
                   (fold (serve_oco gw) requests (m\<lparr>oco_calls := oco_calls m @ [get_tp, get_sl]\<rparr>)))"
  using assms
  by (simp add: oco_cycle_def oco_resolution_spec_def ask_def Let_def oco_finish_def
      cancel_remaining_order_def)

theorem oco_cycle_resolution_witness:
  "map_of (active_oco_orders oco_example) ''OCO_1000000'' = Some oco_example_order \<and>
   oco_status oco_example_order = ''active'' \<and>
   monitor_oco gw_all_filled ''OCO_1000000'' [(1002, []), (1004, [])] oco_example =
     (False,
      \<lparr>active_oco_orders =
         [(''OCO_1000000'',
           oco_example_order\<lparr>oco_status := ''completed_tp'', oco_completed_time := Some 1002\<rparr>)],
       oco_calls = oco_calls oco_example @
         [GetOrderStatus ''BTCUSDT'' 0, GetOrderStatus ''BTCUSDT'' 1, CancelOrder ''BTCUSDT'' 1]\<rparr>)"
proof -
  have reg: "map_of (active_oco_orders oco_example) ''OCO_1000000'' = Some oco_example_order"
    by (simp add: oco_example_eq)
  have act: "oco_status oco_example_order = ''active''"
    by (simp add: oco_example_order_def)
  show ?thesis
    using oco_cycle_resolution [OF reg act, of gw_all_filled 1002 "[]" "[(1004, [])]"] reg act
    by (simp add: oco_example_eq oco_example_order_def gw_all_filled_def
        oco_resolution_spec_def status_is_def Let_def)
qed

text \<open>
  C5. When the take-profit placement fails, creation fails with no registry entry and no
  further gateway call; when it succeeds and the stop-loss placement fails, creation
  cancels the take-profit leg (the result of the cancel is ignored) and fails, again
  with no registry entry.
\<close>

theorem place_oco_order_leg_failure:
  "(gw (oco_calls m) (PlaceOrder smb sd ''LIMIT'' qty (Some tp_price) None (Some ''GTC'')) = None \<longrightarrow>
      place_oco_order gw new_id smb sd qty tp_price sl_price now m =
        (None,
         m\<lparr>oco_calls := oco_calls m @
              [PlaceOrder smb sd ''LIMIT'' qty (Some tp_price) None (Some ''GTC'')]\<rparr>)) \<and>
   (gw (oco_calls m) (PlaceOrder smb sd ''LIMIT'' qty (Some tp_price) None (Some ''GTC''))
      = Some tp_order \<and>
    gw (oco_calls m @ [PlaceOrder smb sd ''LIMIT'' qty (Some tp_price) None (Some ''GTC'')])
      (PlaceOrder smb sd ''STOP_MARKET'' qty None (Some sl_price) None) = None \<longrightarrow>
      place_oco_order gw new_id smb sd qty tp_price sl_price now m =
        (None,
         m\<lparr>oco_calls := oco_calls m @
              [PlaceOrder smb sd ''LIMIT'' qty (Some tp_price) None (Some ''GTC''),
               PlaceOrder smb sd ''STOP_MARKET'' qty None (Some sl_price) None,
               CancelOrder smb (orderId tp_order)]\<rparr>))"
  by (simp add: place_oco_order_def place_take_profit_limit_order_def
      place_stop_loss_order_def ask_def)

theorem place_oco_order_leg_failure_witness:
  "place_oco_order (gw_accept_first 0) ''OCO_1000000'' ''BTCUSDT'' ''SELL'' 1 110 90 1000 oco_init =
     (None,
      \<lparr>active_oco_orders = [],
       oco_calls = [PlaceOrder ''BTCUSDT'' ''SELL'' ''LIMIT'' 1 (Some 110) None (Some ''GTC'')]\<rparr>) \<and>
   place_oco_order (gw_accept_first 1) ''OCO_1000000'' ''BTCUSDT'' ''SELL'' 1 110 90 1000 oco_init =
     (None,
      \<lparr>active_oco_orders = [],
       oco_calls = [PlaceOrder ''BTCUSDT'' ''SELL'' ''LIMIT'' 1 (Some 110) None (Some ''GTC''),
                    PlaceOrder ''BTCUSDT'' ''SELL'' ''STOP_MARKET'' 1 None (Some 90) None,
                    CancelOrder ''BTCUSDT'' 0]\<rparr>)"
  using place_oco_order_leg_failure
          [where gw = "gw_accept_first 0" and m = oco_init and smb = "''BTCUSDT''"
             and sd = "''SELL''" and qty = 1 and tp_price = 110 and sl_price = 90
             and new_id = "''OCO_1000000''" and now = 1000]
        place_oco_order_leg_failure
          [where gw = "gw_accept_first 1" and m = oco_init and smb = "''BTCUSDT''"
             and sd = "''SELL''" and qty = 1 and tp_price = 110 and sl_price = 90
             and new_id = "''OCO_1000000''" and now = 1000
             and tp_order = "\<lparr>orderId = 0, ord_status = ''NEW''\<rparr>"]
  by (simp add: gw_accept_first_def oco_init_def)


text \<open>
  C6. Cancelling a registered OCO order that is not active fails with no gateway call;
  cancelling an active one issues one gateway cancel per leg and sets the status to
  CANCELLED exactly when at least one of the two succeeds, leaving the record as it was
  when both fail; after a successful cancel a second cancel fails and calls nothing.
\<close>

theorem cancel_oco_order_cases:
  assumes "map_of (active_oco_orders m) oid = Some oco"
  shows "(oco_status oco \<noteq> ''active'' \<longrightarrow> cancel_oco_order gw oid now m = (False, m)) \<and>
         (oco_status oco = ''active'' \<longrightarrow>
            (let cancel_tp = CancelOrder (oco_symbol oco) (orderId (take_profit_order oco));
                 cancel_sl = CancelOrder (oco_symbol oco) (orderId (stop_loss_order oco));
                 any_cancelled = (gw (oco_calls m) cancel_tp \<noteq> None \<or>
                                  gw (oco_calls m @ [cancel_tp]) cancel_sl \<noteq> None)
             in cancel_oco_order gw oid now m =
                  (any_cancelled,
                   m\<lparr>oco_calls := oco_calls m @ [cancel_tp, cancel_sl],
                     active_oco_orders :=
                       (if any_cancelled
                        then AList.update oid
                               (oco\<lparr>oco_status := ''cancelled'', oco_completed_time := Some now\<rparr>)
                               (active_oco_orders m)
                        else active_oco_orders m)\<rparr>))) \<and>
         (fst (cancel_oco_order gw oid now m) \<longrightarrow>
            cancel_oco_order gw' oid now' (snd (cancel_oco_order gw oid now m)) =
              (False, snd (cancel_oco_order gw oid now m)))"
  using assms
  by (simp add: cancel_oco_order_def ask_def Let_def oco_finish_def update_conv')

theorem cancel_oco_order_cases_witness:
  "cancel_oco_order (gw_accept_first 3) ''OCO_1000000'' 1010 oco_example =
     (True,
      \<lparr>active_oco_orders =
         [(''OCO_1000000'',
           oco_example_order\<lparr>oco_status := ''cancelled'', oco_completed_time := Some 1010\<rparr>)],
       oco_calls = oco_calls oco_example @ [CancelOrder ''BTCUSDT'' 0, CancelOrder ''BTCUSDT'' 1]\<rparr>) \<and>
   cancel_oco_order gw_all_filled ''OCO_1000000'' 1020 oco_example_cancelled =
     (False, oco_example_cancelled) \<and>
   cancel_oco_order gw_reject ''OCO_1000000'' 1010 oco_example =
     (False,
      oco_example\<lparr>oco_calls := oco_calls oco_example @
                     [CancelOrder ''BTCUSDT'' 0, CancelOrder ''BTCUSDT'' 1]\<rparr>)"
proof -
  have reg: "map_of (active_oco_orders oco_example) ''OCO_1000000'' = Some oco_example_order"
    by (simp add: oco_example_eq)
  have first: "cancel_oco_order (gw_accept_first 3) ''OCO_1000000'' 1010 oco_example =
     (True,
      \<lparr>active_oco_orders =
         [(''OCO_1000000'',
           oco_example_order\<lparr>oco_status := ''cancelled'', oco_completed_time := Some 1010\<rparr>)],
       oco_calls = oco_calls oco_example @ [CancelOrder ''BTCUSDT'' 0, CancelOrder ''BTCUSDT'' 1]\<rparr>)"
    using cancel_oco_order_cases [OF reg, of "gw_accept_first 3" 1010]
    by (simp add: oco_example_eq oco_example_order_def gw_accept_first_def Let_def)
  have reg2: "map_of (active_oco_orders oco_example_cancelled) ''OCO_1000000'' =
      Some (oco_example_order\<lparr>oco_status := ''cancelled'', oco_completed_time := Some 1010\<rparr>)"
    using first by (simp add: oco_example_cancelled_def)
  have second: "cancel_oco_order gw_all_filled ''OCO_1000000'' 1020 oco_example_cancelled =
     (False, oco_example_cancelled)"
    using cancel_oco_order_cases [OF reg2, of gw_all_filled 1020]
    by (simp add: oco_example_order_def)
  have third: "cancel_oco_order gw_reject ''OCO_1000000'' 1010 oco_example =
     (False,
      oco_example\<lparr>oco_calls := oco_calls oco_example @
                     [CancelOrder ''BTCUSDT'' 0, CancelOrder ''BTCUSDT'' 1]\<rparr>)"
    using cancel_oco_order_cases [OF reg, of gw_reject 1010]
    by (simp add: oco_example_eq oco_example_order_def gw_reject_def Let_def)
  from first second third show ?thesis by simp
qed


section \<open>Grid: replacement legs\<close>

lemma grid_example_floats:
  "fsub 200 100 = 100" "float_of_int 1 = 1" "float_of_int 2 = 2" "float_of_int 0 = 0"
  "fdiv 100 1 = 100" "fdiv 1 2 = 1 / 2" "fmul 0 100 = 0" "fmul 1 100 = 100"
  "fadd 100 0 = 100" "fadd 100 100 = 200" "fadd 100 200 = 300" "fdiv 300 2 = 150"
  "fmul 100 (1 / 2) = 50" "fadd 0 50 = 50" "fadd 0 (1 / 2) = 1 / 2"
  "fdiv 50 1 = 50" "fdiv 0 1 = 0" "fdiv 50 (1 / 2) = 100"
  by code_simp+

lemma grid_example_eq:
  "grid_example =
     \<lparr>active_grid_orders = [(''GRID_1000000'', grid_example_order)],
      grid_calls = grid_example_calls\<rparr>"
  by (simp add: grid_example_def grid_example_order_def grid_example_calls_def
      place_grid_order_def place_level_def grid_init_def ask_def gw_filled_def
      grid_example_floats Let_def upt_rec numeral_eq_Suc)

text \<open>
  C7. When the monitor sees an active leg at price \<open>p\<close> filled, it marks it filled and
  places the replacement on the other side at exactly \<open>p + price_step\<close> (BUY filled) or
  \<open>p - price_step\<close> (SELL filled), with the filled leg's quantity; when that price is
  outside the range no gateway order is placed and no leg is added; when the placement
  fails no leg is added and no other leg changes.
\<close>

theorem check_order_filled_leg:
  assumes "i < length (orders g)" and "status (orders g ! i) = ''active''"
    and "status_is (gw calls (GetOrderStatus (g_symbol g) (order_id (orders g ! i)))) ''FILLED''"
  shows "let filled_order = (orders g ! i)\<lparr>status := ''filled''\<rparr>;
             new_side = (if side (orders g ! i) = ''BUY'' then ''SELL'' else ''BUY'');
             new_price = (if side (orders g ! i) = ''BUY''
                          then fadd (price (orders g ! i)) (price_step g)
                          else fsub (price (orders g ! i)) (price_step g));
             calls1 = calls @ [GetOrderStatus (g_symbol g) (order_id (orders g ! i))];
             placement = PlaceOrder (g_symbol g) new_side ''LIMIT'' (quantity (orders g ! i))
                           (Some new_price) None (Some ''GTC'');
             marked = g\<lparr>orders := (orders g)[i := filled_order]\<rparr>
         in check_order gw i (g, calls) =
              (if new_price < price_range_min g \<or> price_range_max g < new_price
               then (marked, calls1)
               else case gw calls1 placement of
                      None \<Rightarrow> (marked, calls1 @ [placement])
                    | Some order_result \<Rightarrow>
                        (marked\<lparr>orders := orders marked @
                                  [\<lparr>order_id = orderId order_result, side = new_side,
                                    price = new_price, quantity = quantity (orders g ! i),
                                    status = ''active''\<rparr>]\<rparr>,
                         calls1 @ [placement]))"
  using assms
  by (simp add: check_order_def place_replacement_order_def ask_def Let_def
      split: option.split)

theorem check_order_filled_leg_witness:
  "0 < length (orders grid_example_order) \<and>
   status (orders grid_example_order ! 0) = ''active'' \<and>
   status_is (gw_filled 0 grid_example_calls
                (GetOrderStatus (g_symbol grid_example_order)
                   (order_id (orders grid_example_order ! 0)))) ''FILLED'' \<and>
   check_order (gw_filled 0) 0 (grid_example_order, grid_example_calls) =
     (grid_example_order
        \<lparr>orders :=
           [\<lparr>order_id = 0, side = ''BUY'', price = 100, quantity = 1 / 2, status = ''filled''\<rparr>,
            \<lparr>order_id = 1, side = ''SELL'', price = 200, quantity = 1 / 2, status = ''active''\<rparr>,
            \<lparr>order_id = 3, side = ''SELL'', price = 200, quantity = 1 / 2, status = ''active''\<rparr>]\<rparr>,
      grid_example_calls @
        [GetOrderStatus ''BTCUSDT'' 0,
         PlaceOrder ''BTCUSDT'' ''SELL'' ''LIMIT'' (1 / 2) (Some 200) None (Some ''GTC'')])"
proof -
  have len: "0 < length (orders grid_example_order)"
    by (simp add: grid_example_order_def)
  have act: "status (orders grid_example_order ! 0) = ''active''"
    by (simp add: grid_example_order_def)
  have fill: "status_is (gw_filled 0 grid_example_calls
                (GetOrderStatus (g_symbol grid_example_order)
                   (order_id (orders grid_example_order ! 0)))) ''FILLED''"
    by (simp add: grid_example_order_def gw_filled_def status_is_def)
  show ?thesis
    using check_order_filled_leg
            [where gw = "gw_filled 0" and calls = grid_example_calls
               and g = grid_example_order and i = 0, OF len act fill] len act fill
    by (simp add: grid_example_order_def grid_example_calls_def gw_filled_def
        grid_example_floats Let_def)
qed

section \<open>Grid: cancellation and performance\<close>

lemma cancel_legs_calls:
  "snd (cancel_legs gw smb legs calls) =
     calls @ map (\<lambda>leg. CancelOrder smb (order_id leg)) (filter (\<lambda>leg. status leg = ''active'') legs)"
  by (induction legs arbitrary: calls) (simp_all add: ask_def case_prod_beta)

lemma cancel_legs_statuses:
  "list_all2 (\<lambda>old new. new = old \<or> status old = ''active'' \<and> new = old\<lparr>status := ''cancelled''\<rparr>)
     legs (fst (cancel_legs gw smb legs calls))"
  by (induction legs arbitrary: calls) (simp_all add: ask_def case_prod_beta)

text \<open>
  C10. Cancelling a registered grid does not look at its status: it succeeds also on a
  grid that is already cancelled, issues a gateway cancel for every leg still recorded
  as active, marks the legs whose cancel succeeded, and overwrites \<open>completed_time\<close>.
\<close>

theorem cancel_grid_order_any_status:
  assumes "map_of (active_grid_orders m) gid = Some g"
  shows "\<exists>legs.
           cancel_grid_order gw gid now m =
             (True,
              m\<lparr>active_grid_orders :=
                  AList.update gid
                    (g\<lparr>orders := legs, g_status := ''cancelled'', g_completed_time := Some now\<rparr>)
                    (active_grid_orders m),
                grid_calls := grid_calls m @
                  map (\<lambda>leg. CancelOrder (g_symbol g) (order_id leg))
                    (filter (\<lambda>leg. status leg = ''active'') (orders g))\<rparr>) \<and>
           list_all2
             (\<lambda>old new. new = old \<or> status old = ''active'' \<and> new = old\<lparr>status := ''cancelled''\<rparr>)
             (orders g) legs"
proof -
  obtain legs calls where run: "cancel_legs gw (g_symbol g) (orders g) (grid_calls m) = (legs, calls)"
    by (cases "cancel_legs gw (g_symbol g) (orders g) (grid_calls m)")
  have "calls = grid_calls m @
          map (\<lambda>leg. CancelOrder (g_symbol g) (order_id leg))
            (filter (\<lambda>leg. status leg = ''active'') (orders g))"
    using cancel_legs_calls [of gw "g_symbol g" "orders g" "grid_calls m"] run by simp
  moreover have "list_all2
      (\<lambda>old new. new = old \<or> status old = ''active'' \<and> new = old\<lparr>status := ''cancelled''\<rparr>)
      (orders g) legs"
    using cancel_legs_statuses [of "orders g" gw "g_symbol g" "grid_calls m"] run by simp
  ultimately show ?thesis
    using assms run by (auto simp add: cancel_grid_order_def)
qed

lemma grid_example_uncancelled_eq:
  "grid_example_uncancelled =
     \<lparr>active_grid_orders =
        [(''GRID_1000000'',
          grid_example_order\<lparr>g_status := ''cancelled'', g_completed_time := Some 1010\<rparr>)],
      grid_calls = grid_example_calls @ [CancelOrder ''BTCUSDT'' 0, CancelOrder ''BTCUSDT'' 1]\<rparr>"
  by (simp add: grid_example_uncancelled_def grid_example_eq cancel_grid_order_def
      grid_example_order_def ask_def gw_reject_def)

theorem cancel_grid_order_any_status_witness:
  "map_of (active_grid_orders grid_example_uncancelled) ''GRID_1000000'' =
     Some (grid_example_order\<lparr>g_status := ''cancelled'', g_completed_time := Some 1010\<rparr>) \<and>
   cancel_grid_order gw_accept ''GRID_1000000'' 1020 grid_example_uncancelled =
     (True,
      \<lparr>active_grid_orders =
         [(''GRID_1000000'',
           grid_example_order
             \<lparr>orders :=
                [\<lparr>order_id = 0, side = ''BUY'', price = 100, quantity = 1 / 2, status = ''cancelled''\<rparr>,
                 \<lparr>order_id = 1, side = ''SELL'', price = 200, quantity = 1 / 2, status = ''cancelled''\<rparr>],
              g_status := ''cancelled'', g_completed_time := Some 1020\<rparr>)],
       grid_calls = grid_example_calls @
         [CancelOrder ''BTCUSDT'' 0, CancelOrder ''BTCUSDT'' 1,
          CancelOrder ''BTCUSDT'' 0, CancelOrder ''BTCUSDT'' 1]\<rparr>)"
proof -
  have reg: "map_of (active_grid_orders grid_example_uncancelled) ''GRID_1000000'' =
     Some (grid_example_order\<lparr>g_status := ''cancelled'', g_completed_time := Some 1010\<rparr>)"
    by (simp add: grid_example_uncancelled_eq)
  from cancel_grid_order_any_status [OF reg, of gw_accept 1020]
  obtain legs where
    res: "cancel_grid_order gw_accept ''GRID_1000000'' 1020 grid_example_uncancelled =
       (True,
        grid_example_uncancelled
          \<lparr>active_grid_orders :=
             AList.update ''GRID_1000000''
               (grid_example_order
                  \<lparr>g_status := ''cancelled'', g_completed_time := Some 1010,
                   orders := legs, g_status := ''cancelled'', g_completed_time := Some 1020\<rparr>)
               (active_grid_orders grid_example_uncancelled),
           grid_calls := grid_calls grid_example_uncancelled @
             map (\<lambda>leg. CancelOrder
                     (g_symbol (grid_example_order
                        \<lparr>g_status := ''cancelled'', g_completed_time := Some 1010\<rparr>))
                     (order_id leg))
               (filter (\<lambda>leg. status leg = ''active'')
                  (orders (grid_example_order
                     \<lparr>g_status := ''cancelled'', g_completed_time := Some 1010\<rparr>)))\<rparr>)"
    by blast
  have legs: "fst (cancel_legs gw_accept ''BTCUSDT'' (orders grid_example_order)
                 (grid_example_calls @ [CancelOrder ''BTCUSDT'' 0, CancelOrder ''BTCUSDT'' 1])) =
      [\<lparr>order_id = 0, side = ''BUY'', price = 100, quantity = 1 / 2, status = ''cancelled''\<rparr>,
       \<lparr>order_id = 1, side = ''SELL'', price = 200, quantity = 1 / 2, status = ''cancelled''\<rparr>]"
    by (simp add: grid_example_order_def ask_def gw_accept_def)
  show ?thesis
    using reg res legs
    by (simp add: grid_example_uncancelled_eq cancel_grid_order_def grid_example_order_def
        split: prod.splits)
qed

lemma grid_example_filled_eq:
  "grid_example_filled =
     \<lparr>active_grid_orders =
        [(''GRID_1000000'',
          grid_example_order
            \<lparr>orders :=
               [\<lparr>order_id = 0, side = ''BUY'', price = 100, quantity = 1 / 2, status = ''filled''\<rparr>,
                \<lparr>order_id = 1, side = ''SELL'', price = 200, quantity = 1 / 2, status = ''active''\<rparr>,
                \<lparr>order_id = 3, side = ''SELL'', price = 200, quantity = 1 / 2, status = ''active''\<rparr>]\<rparr>)],
      grid_calls = grid_example_calls @
        [GetOrderStatus ''BTCUSDT'' 0,
         PlaceOrder ''BTCUSDT'' ''SELL'' ''LIMIT'' (1 / 2) (Some 200) None (Some ''GTC''),
         GetOrderStatus ''BTCUSDT'' 1, GetOrderStatus ''BTCUSDT'' 3]\<rparr>"
  by (simp add: grid_example_filled_def grid_example_eq grid_cycle_def grid_example_order_def
      grid_example_calls_def check_orders.simps check_order_def place_replacement_order_def
      ask_def gw_filled_def status_is_def grid_example_floats Let_def)

text \<open>
  For a side whose filled volume is at least one unit the snapshot does report the sum
  of price times quantity divided by the volume.
\<close>

lemma grid_performance_whole_volume:
  assumes "map_of (active_grid_orders m) gid = Some g"
    and "get_grid_performance gid m = Some perf"
  shows "1 \<le> buy_volume perf \<Longrightarrow>
           avg_buy_price perf =
             fdiv (fsum (map (\<lambda>order. fmul (price order) (quantity order))
                          (filter (\<lambda>order. status order = ''filled'' \<and> side order = ''BUY'')
                             (orders g))))
               (buy_volume perf)"
    and "1 \<le> sell_volume perf \<Longrightarrow>
           avg_sell_price perf =
             fdiv (fsum (map (\<lambda>order. fmul (price order) (quantity order))
                          (filter (\<lambda>order. status order = ''filled'' \<and> side order = ''SELL'')
                             (orders g))))
               (sell_volume perf)"
  using assms by (auto simp add: get_grid_performance_def Let_def max_def)

text \<open>
  C9. The snapshot reports per side the volume-weighted average price of the filled legs:
  the sum of price times quantity divided by the side's filled volume. On the example
  grid with its BUY leg (price 100, quantity 1/2) filled, the code divides by
  \<open>max(buy_volume, 1) = 1\<close> and reports 50, where the volume-weighted average is 100.
\<close>

theorem grid_performance_fractional_volume:
  "get_grid_performance ''GRID_1000000'' grid_example_filled =
     Some \<lparr>total_filled_orders = 1, total_volume = 1 / 2, buy_volume = 1 / 2, sell_volume = 0,
           avg_buy_price = 50, avg_sell_price = 0, spread = 0\<rparr> \<and>
   fdiv (fsum [fmul 100 (1 / 2)]) (fsum [1 / 2]) = 100"
  by (simp add: grid_example_filled_eq get_grid_performance_def grid_example_order_def
      fsum_def grid_example_floats Let_def)


section \<open>Grid: levels and range\<close>

lemma map_filter_snoc:
  "List.map_filter f (xs @ [x]) =
     List.map_filter f xs @ (case f x of None \<Rightarrow> [] | Some y \<Rightarrow> [y])"
  by (simp add: List.map_filter_def split: option.split)

lemma place_level_step:
  "place_level gw smb pmin pmax (fdiv (fsub pmax pmin) (float_of_int (count - 1)))
     (fdiv qty (float_of_int count)) i (legs, calls) =
     (legs @ (case gw calls (level_call_spec smb pmin pmax count qty i) of
                None \<Rightarrow> []
              | Some order_result \<Rightarrow> [level_leg_spec pmin pmax count qty i order_result]),
      calls @ [level_call_spec smb pmin pmax count qty i])"
  by (simp add: place_level_def ask_def Let_def level_call_spec_def level_leg_spec_def
      level_price_spec_def level_side_spec_def split: option.split)

lemma fold_place_level:
  "fold (place_level gw smb pmin pmax (fdiv (fsub pmax pmin) (float_of_int (count - 1)))
           (fdiv qty (float_of_int count))) [0..<k] ([], calls) =
     (List.map_filter
        (\<lambda>i. map_option (level_leg_spec pmin pmax count qty i)
               (gw (calls @ map (level_call_spec smb pmin pmax count qty) [0..<i])
                  (level_call_spec smb pmin pmax count qty i)))
        [0..<k],
      calls @ map (level_call_spec smb pmin pmax count qty) [0..<k])"
proof (induction k)
  case 0
  show ?case by (simp add: List.map_filter_def)
next
  case (Suc k)
  have "fold (place_level gw smb pmin pmax (fdiv (fsub pmax pmin) (float_of_int (count - 1)))
           (fdiv qty (float_of_int count))) [0..<Suc k] ([], calls) =
        place_level gw smb pmin pmax (fdiv (fsub pmax pmin) (float_of_int (count - 1)))
           (fdiv qty (float_of_int count)) k
          (fold (place_level gw smb pmin pmax (fdiv (fsub pmax pmin) (float_of_int (count - 1)))
             (fdiv qty (float_of_int count))) [0..<k] ([], calls))"
    by simp
  also have "\<dots> =
     (List.map_filter
        (\<lambda>i. map_option (level_leg_spec pmin pmax count qty i)
               (gw (calls @ map (level_call_spec smb pmin pmax count qty) [0..<i])
                  (level_call_spec smb pmin pmax count qty i)))
        [0..<Suc k],
      calls @ map (level_call_spec smb pmin pmax count qty) [0..<Suc k])"
    unfolding Suc.IH place_level_step
    by (simp add: map_filter_snoc split: option.split)
  finally show ?case .
qed

lemma grid_extends_refl: "grid_extends g g"
  by (simp add: grid_extends_def)

lemma grid_extends_trans:
  assumes "grid_extends g1 g2" and "grid_extends g2 g3"
  shows "grid_extends g1 g3"
proof -
  let ?n1 = "length (orders g1)" and ?n2 = "length (orders g2)"
  let ?p2 = "map price (orders g2)" and ?p3 = "map price (orders g3)"
  let ?ok = "\<lambda>prc. price_range_min g1 \<le> prc \<and> prc \<le> price_range_max g1"
  from assms have t12: "take ?n1 ?p2 = map price (orders g1)"
    and t23: "take ?n2 ?p3 = ?p2"
    and d12: "list_all ?ok (drop ?n1 ?p2)"
    and d23: "list_all ?ok (drop ?n2 ?p3)"
    and same: "price_range_min g3 = price_range_min g1" "price_range_max g3 = price_range_max g1"
      "price_step g3 = price_step g1"
    by (simp_all add: grid_extends_def)
  have le: "?n1 \<le> ?n2"
    using t12 by (metis length_map length_take min.cobounded1)
  have "take ?n1 ?p3 = take ?n1 (take ?n2 ?p3)"
    using le by (simp add: min_def)
  then have t13: "take ?n1 ?p3 = map price (orders g1)"
    using t12 t23 by simp
  have "drop ?n1 ?p3 = drop ?n1 (take ?n2 ?p3) @ drop ?n2 ?p3"
    using le by (metis append_take_drop_id drop_append diff_is_0_eq drop0 length_map t23)
  then have "list_all ?ok (drop ?n1 ?p3)"
    using d12 d23 t23 by simp
  with t13 same show ?thesis
    by (simp add: grid_extends_def)
qed

text \<open>
  A pass of the monitor keeps the range, the step and the prices of the legs, and every
  leg it adds has its price within the range.
\<close>

lemma place_replacement_order_extends:
  "grid_extends g (fst (place_replacement_order gw filled_order (g, calls)))"
  by (simp add: place_replacement_order_def ask_def Let_def grid_extends_def
      split: option.split)

lemma check_order_extends:
  "grid_extends g (fst (check_order gw i (g, calls)))"
proof -
  let ?marked = "g\<lparr>orders := (orders g)[i := (orders g ! i)\<lparr>status := ''filled''\<rparr>]\<rparr>"
  have marked: "grid_extends g ?marked"
    by (simp add: grid_extends_def map_update) (metis list_update_id map_update)
  show ?thesis
    using marked place_replacement_order_extends [of ?marked gw]
    by (auto simp add: check_order_def ask_def grid_extends_refl intro: grid_extends_trans)
qed



lemma check_orders_extends:
  assumes run: "check_orders gw i acc = Some acc'"
  shows "grid_extends (fst acc) (fst acc')"
proof (rule check_orders.raw_induct
    [where P = "\<lambda>gw i acc acc'. grid_extends (fst acc) (fst acc')", OF _ run])
  fix f :: "gateway \<Rightarrow> nat \<Rightarrow> grid_order \<times> gateway_call list
              \<Rightarrow> (grid_order \<times> gateway_call list) option"
    and gw i acc acc'
  assume IH: "\<And>gw i acc acc'. f gw i acc = Some acc' \<Longrightarrow> grid_extends (fst acc) (fst acc')"
    and step: "(if i < length (orders (fst acc)) then f gw (Suc i) (check_order gw i acc)
                else Some acc) = Some acc'"
  show "grid_extends (fst acc) (fst acc')"
  proof (cases "i < length (orders (fst acc))")
    case True
    with step have "f gw (Suc i) (check_order gw i acc) = Some acc'"
      by simp
    then have "grid_extends (fst (check_order gw i acc)) (fst acc')"
      by (rule IH)
    moreover have "grid_extends (fst acc) (fst (check_order gw i acc))"
      using check_order_extends [of "fst acc" gw i "snd acc"] by simp
    ultimately show ?thesis
      by (rule grid_extends_trans [rotated])
  next
    case False
    with step show ?thesis
      by (simp add: grid_extends_refl)
  qed
qed


text \<open>
  The initial legs are the levels as the specification words them: one placement per
  level, and the legs recorded are the levels whose placement succeeded, in order.
\<close>

lemma place_grid_order_levels:
  assumes "2 \<le> count" and "pmin < pmax"
  shows "place_grid_order gw new_id smb count pmin pmax qty now m =
     (let level_calls = map (level_call_spec smb pmin pmax count qty) [0..<nat count];
          legs = List.map_filter
                   (\<lambda>i. map_option (level_leg_spec pmin pmax count qty i)
                          (gw (grid_calls m @ map (level_call_spec smb pmin pmax count qty) [0..<i])
                             (level_call_spec smb pmin pmax count qty i)))
                   [0..<nat count]
      in if legs = [] then (None, m\<lparr>grid_calls := grid_calls m @ level_calls\<rparr>)
         else (Some new_id,
               m\<lparr>active_grid_orders :=
                   AList.update new_id
                     \<lparr>grid_id = new_id, g_symbol = smb, grid_count = count,
                      price_range_min = pmin, price_range_max = pmax, g_total_quantity = qty,
                      quantity_per_level = fdiv qty (float_of_int count),
                      price_step = fdiv (fsub pmax pmin) (float_of_int (count - 1)),
                      orders = legs, g_status = ''active'', g_created_time = now,
                      g_completed_time = None\<rparr>
                     (active_grid_orders m),
                 grid_calls := grid_calls m @ level_calls\<rparr>))"
  using assms unfolding place_grid_order_def Let_def fold_place_level
  by simp

text \<open>
  The grid of 8 levels between 1 and 30. The step is the float nearest to 29/7, which
  lies above 29/7; 7 times the step rounds to the float just above 29, and the top level
  \<open>1 + 7 * step\<close> is the float just above 30.
\<close>

lemma rounding_example_floats:
  "fdiv (fsub 30 1) (float_of_int 7) = 4664442471205157 / 1125899906842624"
  "fdiv 8 (float_of_int 8) = 1"
  "fdiv (fadd 1 30) (float_of_int 2) = 31 / 2"
  "fsub (8444249301319681 / 281474976710656) (4664442471205157 / 1125899906842624) =
     909767335439799 / 35184372088832"
  "fadd (909767335439799 / 35184372088832) (4664442471205157 / 1125899906842624) =
     8444249301319681 / 281474976710656"
  by code_simp+

lemma rounding_example_levels:
  "level_price_spec 1 30 8 0 = 1"
  "level_price_spec 1 30 8 (Suc 0) = 5790342378047781 / 1125899906842624"
  "level_price_spec 1 30 8 2 = 5227392424626469 / 562949953421312"
  "level_price_spec 1 30 8 3 = 944951707528631 / 70368744177664"
  "level_price_spec 1 30 8 4 = 4945917447915813 / 281474976710656"
  "level_price_spec 1 30 8 5 = 3056014032858551 / 140737488355328"
  "level_price_spec 1 30 8 6 = 909767335439799 / 35184372088832"
  "level_price_spec 1 30 8 7 = 8444249301319681 / 281474976710656"
  by code_simp+

lemma upt_8: "[0..<8] = [0, 1, 2, 3, 4, 5, 6, 7]"
  by code_simp

lemma grid_rounding_example_eq:
  "grid_rounding_example =
     \<lparr>active_grid_orders =
        [(''GRID_1000000'',
          \<lparr>grid_id = ''GRID_1000000'', g_symbol = ''BTCUSDT'', grid_count = 8,
           price_range_min = 1, price_range_max = 30, g_total_quantity = 8,
           quantity_per_level = 1,
           price_step = 4664442471205157 / 1125899906842624,
           orders =
             [\<lparr>order_id = 0, side = ''BUY'', price = 1, quantity = 1, status = ''active''\<rparr>,
              \<lparr>order_id = 1, side = ''BUY'', price = 5790342378047781 / 1125899906842624,
                quantity = 1, status = ''active''\<rparr>,
              \<lparr>order_id = 2, side = ''BUY'', price = 5227392424626469 / 562949953421312,
                quantity = 1, status = ''active''\<rparr>,
              \<lparr>order_id = 3, side = ''BUY'', price = 944951707528631 / 70368744177664,
                quantity = 1, status = ''active''\<rparr>,
              \<lparr>order_id = 4, side = ''SELL'', price = 4945917447915813 / 281474976710656,
                quantity = 1, status = ''active''\<rparr>,
              \<lparr>order_id = 5, side = ''SELL'', price = 3056014032858551 / 140737488355328,
                quantity = 1, status = ''active''\<rparr>,
              \<lparr>order_id = 6, side = ''SELL'', price = 909767335439799 / 35184372088832,
                quantity = 1, status = ''active''\<rparr>,
              \<lparr>order_id = 7, side = ''SELL'', price = 8444249301319681 / 281474976710656,
                quantity = 1, status = ''active''\<rparr>],
           g_status = ''active'', g_created_time = 1000, g_completed_time = None\<rparr>)],
      grid_calls = map (level_call_spec ''BTCUSDT'' 1 30 8 8) [0..<8]\<rparr>"
  unfolding grid_rounding_example_def
  by (simp add: place_grid_order_levels grid_init_def gw_accept_def Let_def upt_8
      List.map_filter_def level_leg_spec_def level_side_spec_def rounding_example_floats
      rounding_example_levels)

lemma grid_rounding_order_eq:
  "grid_rounding_order =
     \<lparr>grid_id = ''GRID_1000000'', g_symbol = ''BTCUSDT'', grid_count = 8,
      price_range_min = 1, price_range_max = 30, g_total_quantity = 8,
      quantity_per_level = 1,
      price_step = 4664442471205157 / 1125899906842624,
      orders =
        [\<lparr>order_id = 0, side = ''BUY'', price = 1, quantity = 1, status = ''active''\<rparr>,
         \<lparr>order_id = 1, side = ''BUY'', price = 5790342378047781 / 1125899906842624,
           quantity = 1, status = ''active''\<rparr>,
         \<lparr>order_id = 2, side = ''BUY'', price = 5227392424626469 / 562949953421312,
           quantity = 1, status = ''active''\<rparr>,
         \<lparr>order_id = 3, side = ''BUY'', price = 944951707528631 / 70368744177664,
           quantity = 1, status = ''active''\<rparr>,
         \<lparr>order_id = 4, side = ''SELL'', price = 4945917447915813 / 281474976710656,
           quantity = 1, status = ''active''\<rparr>,
         \<lparr>order_id = 5, side = ''SELL'', price = 3056014032858551 / 140737488355328,
           quantity = 1, status = ''active''\<rparr>,
         \<lparr>order_id = 6, side = ''SELL'', price = 909767335439799 / 35184372088832,
           quantity = 1, status = ''active''\<rparr>,
         \<lparr>order_id = 7, side = ''SELL'', price = 8444249301319681 / 281474976710656,
           quantity = 1, status = ''active''\<rparr>],
      g_status = ''active'', g_created_time = 1000, g_completed_time = None\<rparr>"
  by (simp add: grid_rounding_order_def grid_rounding_example_eq)

lemma grid_rounding_calls:
  "length (grid_calls grid_rounding_example) = 8"
  "last (grid_calls grid_rounding_example) =
     PlaceOrder ''BTCUSDT'' ''SELL'' ''LIMIT'' 1 (Some (8444249301319681 / 281474976710656)) None
       (Some ''GTC'')"
  by (simp_all add: grid_rounding_example_eq upt_8 level_call_spec_def level_side_spec_def
      rounding_example_floats rounding_example_levels)

lemma grid_rounding_round_trip_eq:
  "snd grid_rounding_round_trip =
     grid_calls grid_rounding_example @
       [GetOrderStatus ''BTCUSDT'' 7,
        PlaceOrder ''BTCUSDT'' ''BUY'' ''LIMIT'' 1 (Some (909767335439799 / 35184372088832)) None
          (Some ''GTC''),
        GetOrderStatus ''BTCUSDT'' 9]"
  "map status (orders (fst grid_rounding_round_trip)) =
     replicate 7 ''active'' @ [''filled'', ''filled'']"
  unfolding grid_rounding_round_trip_def grid_rounding_order_eq
  by (simp_all add: grid_rounding_calls check_order_def place_replacement_order_def ask_def
      gw_filled_def status_is_def rounding_example_floats Let_def numeral_eq_Suc)

text \<open>
  C8. The step is \<open>(price_max - price_min) / (level_count - 1)\<close>, the i-th initial leg is
  priced \<open>price_min + i * price_step\<close>, BUY below the midpoint and SELL at or above it, and
  every leg a grid ever holds has a price within \<open>[price_min, price_max]\<close>. On the grid of
  8 levels between 1 and 30 the code computes the step and the levels as claimed, and the
  top level comes out above \<open>price_range_max\<close>: a SELL leg is placed at the exchange and
  recorded at \<open>30 + 2^-48\<close> (30.000000000000004). \<open>_place_replacement_order\<close> refuses that
  very price: once the top leg and the BUY leg that replaces it have been filled, the
  replacement one step above, at \<open>30 + 2^-48\<close> again, is not placed, and the grid has no
  leg at its top level any more.
\<close>

theorem grid_top_level_above_price_max:
  "map_option price_range_max
     (map_of (active_grid_orders grid_rounding_example) ''GRID_1000000'') = Some 30 \<and>
   map_option (price \<circ> last \<circ> orders)
     (map_of (active_grid_orders grid_rounding_example) ''GRID_1000000'') =
     Some (30 + 1 / 2 ^ 48) \<and>
   (30::pyfloat) < 30 + 1 / 2 ^ 48 \<and>
   last (grid_calls grid_rounding_example) =
     PlaceOrder ''BTCUSDT'' ''SELL'' ''LIMIT'' 1 (Some (30 + 1 / 2 ^ 48)) None (Some ''GTC'') \<and>
   map_of (active_grid_orders grid_rounding_example) ''GRID_1000000'' =
     Some grid_rounding_order \<and>
   snd grid_rounding_round_trip =
     grid_calls grid_rounding_example @
       [GetOrderStatus ''BTCUSDT'' 7,
        PlaceOrder ''BTCUSDT'' ''BUY'' ''LIMIT'' 1 (Some (909767335439799 / 35184372088832)) None
          (Some ''GTC''),
        GetOrderStatus ''BTCUSDT'' 9] \<and>
   map status (orders (fst grid_rounding_round_trip)) =
     replicate 7 ''active'' @ [''filled'', ''filled''] \<and>
   fadd (909767335439799 / 35184372088832) (price_step grid_rounding_order) = 30 + 1 / 2 ^ 48"
proof -
  have reg: "map_of (active_grid_orders grid_rounding_example) ''GRID_1000000'' =
      Some grid_rounding_order"
    unfolding grid_rounding_order_eq by (simp add: grid_rounding_example_eq)
  have top: "price (last (orders grid_rounding_order)) = 30 + 1 / 2 ^ 48"
    and range: "price_range_max grid_rounding_order = 30"
    and again: "fadd (909767335439799 / 35184372088832) (price_step grid_rounding_order) =
      30 + 1 / 2 ^ 48"
    by (simp_all add: grid_rounding_order_eq rounding_example_floats)
  have placed: "last (grid_calls grid_rounding_example) =
      PlaceOrder ''BTCUSDT'' ''SELL'' ''LIMIT'' 1 (Some (30 + 1 / 2 ^ 48)) None (Some ''GTC'')"
    by (simp add: grid_rounding_calls)
  show ?thesis
    using top range again placed grid_rounding_round_trip_eq by (simp add: reg)
qed


section \<open>Removal from the registries\<close>









text \<open>
  The identifiers of a registry are distinct, as the keys of a dict are: the empty
  registry has none, and every operation of a manager keeps them distinct.
\<close>

lemma distinct_fold_delete:
  "distinct (map fst xs) \<Longrightarrow> distinct (map fst (fold AList.delete ks xs))"
  by (induction ks arbitrary: xs) (simp_all add: distinct_delete)

lemma grid_registry_distinct:
  assumes "distinct (map fst (active_grid_orders m))"
  shows "distinct (map fst (active_grid_orders
           (snd (place_grid_order gw new_id smb count pmin pmax qty now m))))"
    and "distinct (map fst (active_grid_orders (snd (cancel_grid_order gw gid now m))))"
    and "distinct (map fst (active_grid_orders (cleanup_completed_grid_orders max_age_hours now m)))"
    and "grid_cycle gw gid m = Some (running, m') \<Longrightarrow> distinct (map fst (active_grid_orders m'))"
  using assms
  by (auto simp add: place_grid_order_def cancel_grid_order_def cleanup_completed_grid_orders_def
      grid_cycle_def Let_def distinct_update distinct_fold_delete
      split: prod.splits option.splits if_splits)

lemma oco_registry_distinct:
  assumes "distinct (map fst (active_oco_orders m))"
  shows "distinct (map fst (active_oco_orders
           (snd (place_oco_order gw new_id smb sd qty tp_price sl_price now m))))"
    and "distinct (map fst (active_oco_orders (snd (cancel_oco_order gw oid now m))))"
    and "distinct (map fst (active_oco_orders (cleanup_completed_orders max_age_hours now m)))"
    and "distinct (map fst (active_oco_orders (snd (oco_cycle gw oid now m))))"
  using assms
  by (auto simp add: place_oco_order_def cancel_oco_order_def cleanup_completed_orders_def
      oco_cycle_def oco_finish_def Let_def distinct_update distinct_fold_delete
      split: prod.splits option.splits if_splits)

lemma serve_twap_distinct:
  "distinct (map fst (active_twap_orders m)) \<Longrightarrow>
   distinct (map fst (active_twap_orders (serve_twap request m)))"
  by (cases request)
    (simp_all add: cancel_twap_order_def cleanup_completed_twap_orders_def Let_def
      distinct_fold_delete split: option.split)

lemma fold_serve_twap_distinct:
  "distinct (map fst (active_twap_orders m)) \<Longrightarrow>
   distinct (map fst (active_twap_orders (fold serve_twap requests m)))"
  by (induction requests arbitrary: m) (simp_all add: serve_twap_distinct)

lemma twap_loop_distinct:
  "distinct (map fst (active_twap_orders m)) \<Longrightarrow>
   distinct (map fst (active_twap_orders (snd (twap_loop gw sleep r slices m))))"
proof (induction slices arbitrary: m)
  case Nil
  then show ?case by simp
next
  case (Cons i slices)
  show ?case
  proof (cases "tw_status (tw_heap m r) \<noteq> ''active''")
    case True
    with Cons.prems show ?thesis by simp
  next
    case False
    obtain ok m1 where chunk: "execute_twap_chunk gw (tw_heap m r) m = (ok, m1)"
      by (cases "execute_twap_chunk gw (tw_heap m r) m")
    then have reg: "active_twap_orders m1 = active_twap_orders m"
      by (auto simp add: execute_twap_chunk_def ask_def)
    show ?thesis
    proof (cases ok)
      case True
      let ?m2 = "m1\<lparr>tw_heap := (tw_heap m1)
                   (r := (tw_heap m1 r)\<lparr>remaining_quantity :=
                      fsub (remaining_quantity (tw_heap m1 r)) (chunk_quantity (tw_heap m1 r))\<rparr>)\<rparr>"
      have m2: "distinct (map fst (active_twap_orders ?m2))"
        using Cons.prems reg by simp
      show ?thesis
      proof (cases "time_sleep (interval_seconds (tw_heap ?m2 r)) (sleep i)")
        case (Inl e)
        then show ?thesis
          using False chunk True m2 by (simp add: Let_def)
      next
        case (Inr requests)
        have "distinct (map fst (active_twap_orders
                (snd (twap_loop gw sleep r slices (fold serve_twap requests ?m2)))))"
          using m2 by (intro Cons.IH fold_serve_twap_distinct)
        then show ?thesis
          using False chunk True Inr by (simp add: Let_def)
      qed
    next
      case no: False
      then show ?thesis
        using False chunk Cons.prems reg by simp
    qed
  qed
qed

lemma twap_registry_distinct:
  assumes "distinct (map fst (active_twap_orders m))"
  shows "distinct (map fst (active_twap_orders
           (snd (place_twap_order new_id smb sd qty dur ivl now m))))"
    and "distinct (map fst (active_twap_orders (snd (cancel_twap_order tid now m))))"
    and "distinct (map fst (active_twap_orders (cleanup_completed_twap_orders max_age_hours now m)))"
    and "distinct (map fst (active_twap_orders (execute_twap gw sleep tid now m)))"
proof -
  show "distinct (map fst (active_twap_orders
           (snd (place_twap_order new_id smb sd qty dur ivl now m))))"
    using assms by (simp add: place_twap_order_def Let_def distinct_update)
  show "distinct (map fst (active_twap_orders (snd (cancel_twap_order tid now m))))"
    using assms by (simp add: cancel_twap_order_def split: option.split)
  show "distinct (map fst (active_twap_orders (cleanup_completed_twap_orders max_age_hours now m)))"
    using assms by (simp add: cleanup_completed_twap_orders_def Let_def distinct_fold_delete)
  show "distinct (map fst (active_twap_orders (execute_twap gw sleep tid now m)))"
  proof (cases "map_of (active_twap_orders m) tid")
    case None
    with assms show ?thesis
      by (simp add: execute_twap_def)
  next
    case (Some r)
    let ?n = "nat (max 1 (duration_minutes (tw_heap m r) * 60 div interval_seconds (tw_heap m r)))"
    obtain e m1 where run: "twap_loop gw sleep r [0..<?n] m = (e, m1)"
      by (cases "twap_loop gw sleep r [0..<?n] m")
    have "distinct (map fst (active_twap_orders m1))"
      using twap_loop_distinct [OF assms, of gw sleep r "[0..<?n]"] run by simp
    with assms Some run show ?thesis
      by (simp add: execute_twap_def Let_def distinct_delete split: option.split)
  qed
qed











end
